theory Spec2Isabelle
  imports Complex_Main
begin

section \<open>Numeric model\<close>

text \<open>
  The program (\<^verbatim>\<open>captoolkit/crosscal.py\<close>) works on one-dimensional numpy arrays of
  double precision numbers and uses NaN as the marker of a missing value. An array is
  modelled as a list, a number as a real, and a possibly missing number as
  \<open>real option\<close> with \<open>None\<close> for NaN. Arithmetic is exact: rounding, overflow and the
  infinities are outside the model (the one place where the program divides by a
  possibly zero amplitude is modelled by cases, see \<open>ratio_gt_one\<close>). Time stamps are
  never set to NaN by the program, so time arrays are lists of reals. The program is
  read as Python 3: \<^verbatim>\<open>1 / 12\<close> is the fraction. Functions of numpy and scipy that
  no property below depends on (\<^verbatim>\<open>np.linalg.lstsq\<close>, \<^verbatim>\<open>np.interp\<close>, the raster
  interpolation) are parameters of the functions that call them.
\<close>

type_synonym fl = "real option"

text \<open>A binary operation of numpy on two floats: NaN on either side gives NaN.\<close>

fun fl2 :: "(real \<Rightarrow> real \<Rightarrow> real) \<Rightarrow> fl \<Rightarrow> fl \<Rightarrow> fl" where
  "fl2 f (Some a) (Some b) = Some (f a b)"
| "fl2 f _ _ = None"

text \<open>A comparison of numpy on two floats: False as soon as one side is NaN.\<close>

fun fl_cmp :: "(real \<Rightarrow> real \<Rightarrow> bool) \<Rightarrow> fl \<Rightarrow> fl \<Rightarrow> bool" where
  "fl_cmp p (Some a) (Some b) = p a b"
| "fl_cmp p _ _ = False"

definition isnan :: "fl \<Rightarrow> bool" where
  "isnan v = (v = None)"

text \<open>The entries of an array that are not NaN, in order (\<^verbatim>\<open>x[~np.isnan(x)]\<close>).\<close>

fun finite_values :: "fl list \<Rightarrow> real list" where
  "finite_values [] = []"
| "finite_values (None # xs) = finite_values xs"
| "finite_values (Some v # xs) = v # finite_values xs"

text \<open>
  \<^verbatim>\<open>np.median\<close> of a non-empty array without NaN: the middle element of the sorted
  array, or the mean of the two middle elements.
\<close>

definition np_median :: "real list \<Rightarrow> real" where
  "np_median xs = (let s = sort xs; n = length s in
     if n mod 2 = 1 then s ! (n div 2) else (s ! (n div 2 - 1) + s ! (n div 2)) / 2)"

text \<open>\<^verbatim>\<open>np.nanmedian\<close>: the median of the entries that are not NaN, NaN when there is none.\<close>

definition nanmedian :: "fl list \<Rightarrow> fl" where
  "nanmedian xs = (let v = finite_values xs in if v = [] then None else Some (np_median v))"

text \<open>
  \<^verbatim>\<open>
  def mad_std(x, axis=None):
      return 1.4826 * np.nanmedian(np.abs(x - np.nanmedian(x, axis)), axis)
  \<close>
  In exact arithmetic. A median of an even number of values averages the two in the
  middle; in double precision their sum overflows to infinity when the values are
  beyond half the largest double, so the property of \<open>mad_std\<close> below is stated for
  values of bounded magnitude.
\<close>

definition mad_std :: "fl list \<Rightarrow> fl" where
  "mad_std x = fl2 (*) (Some 1.4826)
     (nanmedian (map (\<lambda>v. map_option abs (fl2 (-) v (nanmedian x))) x))"

section \<open>numpy operations\<close>

text \<open>
  The exceptions the modelled functions can raise. A function that can raise returns
  \<open>error + 'a\<close>, with \<open>Inl\<close> for the exception.
\<close>

datatype error = ValueError | ZeroDivisionError | IndexError | UnboundLocalError

text \<open>
  \<^verbatim>\<open>np.arange(start, stop, step)\<close> for a step that is not zero, in exact arithmetic:
  \<open>\<lceil>(stop - start) / step\<rceil>\<close> values \<open>start + k * step\<close>, none when that number is
  negative. (A zero step raises ZeroDivisionError; the callers test it first.) numpy
  computes the length and the values in double precision, so that its result can have an
  element more or less than this one, and a last element at or beyond \<open>stop\<close>. This
  idealisation serves to run the functions on concrete inputs; a property for all inputs
  that depends on the steps or the bin edges is stated of the variants \<open>binning_np\<close>
  and \<open>binning2_np\<close> below, which take \<^verbatim>\<open>np.arange\<close> as a parameter.
\<close>

definition arange :: "real \<Rightarrow> real \<Rightarrow> real \<Rightarrow> real list" where
  "arange start stop step =
     map (\<lambda>k. start + real k * step) [0..<nat \<lceil>(stop - start) / step\<rceil>]"

text \<open>
  Indexing with a boolean array, \<^verbatim>\<open>xs[msk]\<close>, for arrays of the same length (numpy
  raises IndexError otherwise; the callers test the lengths first).
\<close>

definition select :: "bool list \<Rightarrow> 'a list \<Rightarrow> 'a list" where
  "select msk xs = map snd (filter fst (zip msk xs))"

text \<open>Assignment through a boolean array, \<^verbatim>\<open>xs[msk] = v\<close> with a scalar \<open>v\<close>.\<close>

definition assign :: "bool list \<Rightarrow> 'a \<Rightarrow> 'a list \<Rightarrow> 'a list" where
  "assign msk v xs = map (\<lambda>(m, x). if m then v else x) (zip msk xs)"

text \<open>\<^verbatim>\<open>np.sum\<close>: NaN as soon as one entry is NaN; 0 for the empty array.\<close>

definition np_sum :: "fl list \<Rightarrow> fl" where
  "np_sum xs = fold (\<lambda>v acc. fl2 (+) acc v) xs (Some 0)"

text \<open>\<^verbatim>\<open>np.nansum\<close>: the sum of the entries that are not NaN.\<close>

definition nansum :: "fl list \<Rightarrow> real" where
  "nansum xs = sum_list (finite_values xs)"

text \<open>\<^verbatim>\<open>np.nanmean\<close>: the mean of the entries that are not NaN, NaN when there is none.\<close>

definition nanmean :: "fl list \<Rightarrow> fl" where
  "nanmean xs = (let v = finite_values xs in
     if v = [] then None else Some (sum_list v / real (length v)))"

text \<open>
  \<^verbatim>\<open>np.nanstd\<close>: the population standard deviation of the entries that are not NaN,
  \<open>sqrt (mean (|v - mean v|\<^sup>2))\<close>, NaN when there is none.
\<close>

definition nanstd :: "fl list \<Rightarrow> fl" where
  "nanstd xs = (let v = finite_values xs in
     if v = [] then None
     else let m = sum_list v / real (length v) in
       Some (sqrt (sum_list (map (\<lambda>r. \<bar>r - m\<bar> ^ 2) v) / real (length v))))"

text \<open>
  A Python \<^verbatim>\<open>for\<close> loop whose body may raise: the state is threaded through the
  iterations and the first exception ends the loop.
\<close>

fun for_each :: "('i \<Rightarrow> 's \<Rightarrow> error + 's) \<Rightarrow> 'i list \<Rightarrow> 's \<Rightarrow> error + 's" where
  "for_each body [] s = Inr s"
| "for_each body (i # rest) s =
     (case body i s of Inl e \<Rightarrow> Inl e | Inr s' \<Rightarrow> for_each body rest s')"

section \<open>Fixed binning\<close>

text \<open>
  \<^verbatim>\<open>
  def binning(x, y, xmin, xmax, dx):
      bins = np.arange(xmin, xmax + dx, dx)
      xb = np.arange(xmin, xmax, dx) + 0.5 * dx
      yb = np.ones(len(bins) - 1) * np.nan
      eb = np.ones(len(bins) - 1) * np.nan
      nb = np.ones(len(bins) - 1) * np.nan
      sb = np.ones(len(bins) - 1) * np.nan
      for i in range(len(bins) - 1):
          idx = (x >= bins[i]) & (x <= bins[i + 1])
          if len(y[idx]) == 0:
              continue
          ybv = y[idx]
          yb[i] = np.nanmedian(ybv)
          eb[i] = np.nanstd(ybv)
          nb[i] = len(ybv)
          sb[i] = np.sum(ybv)
      return xb, yb, eb, nb, sb
  \<close>
  The five returned arrays are the fields of a record. \<^verbatim>\<open>np.ones(-1)\<close> raises
  ValueError (no bin edge at all), and \<^verbatim>\<open>y[idx]\<close> raises IndexError when \<open>x\<close> and \<open>y\<close>
  differ in length.
\<close>

record binned =
  xb :: "fl list"
  yb :: "fl list"
  eb :: "fl list"
  nb :: "fl list"
  sb :: "fl list"

text \<open>The values \<^verbatim>\<open>y[(x >= lo) & (x <= hi)]\<close> of the observations in a closed window.\<close>

definition bin_values :: "real list \<Rightarrow> 'a list \<Rightarrow> real \<Rightarrow> real \<Rightarrow> 'a list" where
  "bin_values x y lo hi = select (map (\<lambda>t. lo \<le> t \<and> t \<le> hi) x) y"

definition binning_step ::
  "real list \<Rightarrow> fl list \<Rightarrow> real list \<Rightarrow> nat \<Rightarrow> binned \<Rightarrow> error + binned" where
  "binning_step x y bins i b =
     (if length y \<noteq> length x then Inl IndexError
      else let ybv = bin_values x y (bins ! i) (bins ! (i + 1))
           in if length ybv = 0 then Inr b
              else Inr (b\<lparr>yb := (yb b)[i := nanmedian ybv],
                          eb := (eb b)[i := nanstd ybv],
                          nb := (nb b)[i := Some (real (length ybv))],
                          sb := (sb b)[i := np_sum ybv]\<rparr>))"

definition binning :: "real list \<Rightarrow> fl list \<Rightarrow> real \<Rightarrow> real \<Rightarrow> real \<Rightarrow> error + binned" where
  "binning x y xmin xmax dx =
     (if dx = 0 then Inl ZeroDivisionError
      else let bins = arange xmin (xmax + dx) dx in
        if length bins = 0 then Inl ValueError
        else let n = length bins - 1 in
          for_each (binning_step x y bins) [0..<n]
            \<lparr>xb = map (\<lambda>t. Some (t + 0.5 * dx)) (arange xmin xmax dx),
             yb = replicate n None, eb = replicate n None,
             nb = replicate n None, sb = replicate n None\<rparr>)"


text \<open>
  The state of the arrays after the first \<open>n\<close> iterations of the loop of \<open>binning\<close>, at
  index \<open>i\<close>: written by iteration \<open>i\<close> when that bin is not empty, as at the start
  (\<open>b0\<close>) otherwise.
\<close>

definition bin_entry ::
  "real list \<Rightarrow> fl list \<Rightarrow> real list \<Rightarrow> binned \<Rightarrow> nat \<Rightarrow> nat \<Rightarrow> binned \<Rightarrow> bool" where
  "bin_entry x y bins b0 n i b =
     (let v = bin_values x y (bins ! i) (bins ! (i + 1)) in
      if i < n \<and> v \<noteq> []
      then yb b ! i = nanmedian v \<and> eb b ! i = nanstd v
         \<and> nb b ! i = Some (real (length v)) \<and> sb b ! i = np_sum v
      else yb b ! i = yb b0 ! i \<and> eb b ! i = eb b0 ! i
         \<and> nb b ! i = nb b0 ! i \<and> sb b ! i = sb b0 ! i)"

text \<open>
  The same function with the library calls as parameters: \<^verbatim>\<open>np.arange\<close>,
  \<^verbatim>\<open>np.nanmedian\<close>, \<^verbatim>\<open>np.nanstd\<close> and \<^verbatim>\<open>np.sum\<close>, as numpy computes them in double
  precision, whatever they return. \<open>binning\<close> is the instance at the idealised
  operations above (\<open>binning_ideal\<close> below).
\<close>

record numpy =
  lib_arange :: "real \<Rightarrow> real \<Rightarrow> real \<Rightarrow> real list"
  lib_nanmedian :: "fl list \<Rightarrow> fl"
  lib_nanstd :: "fl list \<Rightarrow> fl"
  lib_sum :: "fl list \<Rightarrow> fl"

definition ideal_numpy :: numpy where
  "ideal_numpy = \<lparr>lib_arange = arange, lib_nanmedian = nanmedian,
                   lib_nanstd = nanstd, lib_sum = np_sum\<rparr>"

definition binning_np_step ::
  "numpy \<Rightarrow> real list \<Rightarrow> fl list \<Rightarrow> real list \<Rightarrow> nat \<Rightarrow> binned \<Rightarrow> error + binned" where
  "binning_np_step L x y bins i b =
     (if length y \<noteq> length x then Inl IndexError
      else let ybv = bin_values x y (bins ! i) (bins ! (i + 1))
           in if length ybv = 0 then Inr b
              else Inr (b\<lparr>yb := (yb b)[i := lib_nanmedian L ybv],
                          eb := (eb b)[i := lib_nanstd L ybv],
                          nb := (nb b)[i := Some (real (length ybv))],
                          sb := (sb b)[i := lib_sum L ybv]\<rparr>))"

definition binning_np ::
  "numpy \<Rightarrow> real list \<Rightarrow> fl list \<Rightarrow> real \<Rightarrow> real \<Rightarrow> real \<Rightarrow> error + binned" where
  "binning_np L x y xmin xmax dx =
     (if dx = 0 then Inl ZeroDivisionError
      else let bins = lib_arange L xmin (xmax + dx) dx in
        if length bins = 0 then Inl ValueError
        else let n = length bins - 1 in
          for_each (binning_np_step L x y bins) [0..<n]
            \<lparr>xb = map (\<lambda>t. Some (t + 0.5 * dx)) (lib_arange L xmin xmax dx),
             yb = replicate n None, eb = replicate n None,
             nb = replicate n None, sb = replicate n None\<rparr>)"

text \<open>
  The state of the arrays after the first \<open>n\<close> iterations of the loop of \<open>binning_np\<close>,
  at index \<open>i\<close>, as \<open>bin_entry\<close> above.
\<close>

definition bin_np_entry ::
  "numpy \<Rightarrow> real list \<Rightarrow> fl list \<Rightarrow> real list \<Rightarrow> binned \<Rightarrow> nat \<Rightarrow> nat \<Rightarrow> binned \<Rightarrow> bool" where
  "bin_np_entry L x y bins b0 n i b =
     (let v = bin_values x y (bins ! i) (bins ! (i + 1)) in
      if i < n \<and> v \<noteq> []
      then yb b ! i = lib_nanmedian L v \<and> eb b ! i = lib_nanstd L v
         \<and> nb b ! i = Some (real (length v)) \<and> sb b ! i = lib_sum L v
      else yb b ! i = yb b0 ! i \<and> eb b ! i = eb b0 ! i
         \<and> nb b ! i = nb b0 ! i \<and> sb b ! i = sb b0 ! i)"

section \<open>Overlapping-window binning\<close>

text \<open>
  \<^verbatim>\<open>
  def binning2(x, y, xmin=None, xmax=None, dx=1 / 12.,
               window=3 / 12., interp=False, median=False, weight=None):
      if xmin is None: xmin = np.nanmin(x)
      if xmax is None: xmax = np.nanmax(x)
      steps = np.arange(xmin, xmax, dx)  # time steps
      bins = [(ti, ti + window) for ti in steps]  # bin limits
      N = len(bins)
      yb = np.full(N, np.nan)
      xb = np.full(N, np.nan)
      eb = np.full(N, np.nan)
      nb = np.full(N, np.nan)
      sb = np.full(N, np.nan)
      for i in range(N):
          t1, t2 = bins[i]
          idx, = np.where((x >= t1) & (x <= t2))
          if len(idx) == 0:
              xb[i] = 0.5 * (t1 + t2)
              continue
          if weight is not None:
              dxv = x[idx] - 0.5 * (t1 + t2)
              wbv = np.exp(-dxv/weight)
          else:
              wbv = np.ones(idx.shape)
          ybv = y[idx]
          if median:
              yb[i] = np.nanmedian(ybv)
          else:
              yb[i] = np.nansum(wbv*ybv)/np.nansum(wbv)
          xb[i] = 0.5 * (t1 + t2)
          eb[i] = mad_std(ybv)
          nb[i] = np.sum(~np.isnan(ybv))
          sb[i] = np.sum(ybv)
      if interp:
          try:
              yb = np.interp(x, xb, yb)
              eb = np.interp(x, xb, eb)
              sb = np.interp(x, xb, sb)
              xb = x
          except:
              pass
      return xb, yb, eb, nb, sb
  \<close>
  An optional argument is an \<open>option\<close>. \<^verbatim>\<open>np.nanmin\<close> of an empty array raises
  ValueError, the zero step ZeroDivisionError, and \<^verbatim>\<open>y[idx]\<close> IndexError when an index
  is beyond \<open>y\<close>. The library function \<^verbatim>\<open>np.interp\<close> is the parameter \<open>np_interp\<close>
  (\<open>None\<close> when it raises). A weight is taken to be non-zero.
\<close>

definition span :: "real list \<Rightarrow> real option \<Rightarrow> real option \<Rightarrow> error + (real \<times> real)" where
  "span x xmin xmax =
     (if (xmin = None \<or> xmax = None) \<and> x = [] then Inl ValueError
      else Inr (case xmin of None \<Rightarrow> Min (set x) | Some a \<Rightarrow> a,
                case xmax of None \<Rightarrow> Max (set x) | Some b \<Rightarrow> b))"

text \<open>The indices \<^verbatim>\<open>np.where((x >= t1) & (x <= t2))\<close>.\<close>

definition window_idx :: "real list \<Rightarrow> real \<Rightarrow> real \<Rightarrow> nat list" where
  "window_idx x t1 t2 = filter (\<lambda>j. t1 \<le> x ! j \<and> x ! j \<le> t2) [0..<length x]"

definition binning2_step ::
  "real list \<Rightarrow> fl list \<Rightarrow> real \<Rightarrow> bool \<Rightarrow> real option \<Rightarrow> real list \<Rightarrow> nat \<Rightarrow> binned
     \<Rightarrow> error + binned" where
  "binning2_step x y window median weight steps i b =
     (let t1 = steps ! i; t2 = t1 + window; idx = window_idx x t1 t2 in
      if length idx = 0 then Inr (b\<lparr>xb := (xb b)[i := Some (0.5 * (t1 + t2))]\<rparr>)
      else if list_ex (\<lambda>j. length y \<le> j) idx then Inl IndexError
      else
        let wbv = (case weight of
                     Some w \<Rightarrow> map (\<lambda>j. exp (- (x ! j - 0.5 * (t1 + t2)) / w)) idx
                   | None \<Rightarrow> map (\<lambda>j. 1) idx);
            ybv = map (\<lambda>j. y ! j) idx
        in Inr (b\<lparr>yb := (yb b)[i :=
                      (if median then nanmedian ybv
                       else Some (nansum (map (\<lambda>(w, v). fl2 (*) (Some w) v) (zip wbv ybv))
                                  / sum_list wbv))],
                  xb := (xb b)[i := Some (0.5 * (t1 + t2))],
                  eb := (eb b)[i := mad_std ybv],
                  nb := (nb b)[i := Some (real (length (finite_values ybv)))],
                  sb := (sb b)[i := np_sum ybv]\<rparr>))"

definition binning2 ::
  "(real list \<Rightarrow> fl list \<Rightarrow> fl list \<Rightarrow> fl list option) \<Rightarrow> real list \<Rightarrow> fl list
     \<Rightarrow> real option \<Rightarrow> real option \<Rightarrow> real \<Rightarrow> real \<Rightarrow> bool \<Rightarrow> bool \<Rightarrow> real option
     \<Rightarrow> error + binned" where
  "binning2 np_interp x y xmin xmax dx window interp median weight =
     (case span x xmin xmax of
        Inl e \<Rightarrow> Inl e
      | Inr (start, stop) \<Rightarrow>
          if dx = 0 then Inl ZeroDivisionError
          else
            let steps = arange start stop dx; N = length steps in
            case for_each (binning2_step x y window median weight steps) [0..<N]
                   \<lparr>xb = replicate N None, yb = replicate N None, eb = replicate N None,
                    nb = replicate N None, sb = replicate N None\<rparr> of
              Inl e \<Rightarrow> Inl e
            | Inr b \<Rightarrow>
                if interp then
                  (case np_interp x (xb b) (yb b) of
                     None \<Rightarrow> Inr b
                   | Some yb' \<Rightarrow>
                      (case np_interp x (xb b) (eb b) of
                         None \<Rightarrow> Inr (b\<lparr>yb := yb'\<rparr>)
                       | Some eb' \<Rightarrow>
                          (case np_interp x (xb b) (sb b) of
                             None \<Rightarrow> Inr (b\<lparr>yb := yb', eb := eb'\<rparr>)
                           | Some sb' \<Rightarrow>
                               Inr (b\<lparr>yb := yb', eb := eb', sb := sb',
                                      xb := map Some x\<rparr>))))
                else Inr b)"


text \<open>
  \<open>binning2\<close> with \<^verbatim>\<open>np.arange\<close> as a parameter too: the steps are whatever numpy
  returns. \<open>binning2\<close> is the instance at the idealised \<open>arange\<close> (\<open>binning2_ideal\<close>
  below).
\<close>

definition binning2_np ::
  "(real list \<Rightarrow> fl list \<Rightarrow> fl list \<Rightarrow> fl list option) \<Rightarrow> (real \<Rightarrow> real \<Rightarrow> real \<Rightarrow> real list)
     \<Rightarrow> real list \<Rightarrow> fl list \<Rightarrow> real option \<Rightarrow> real option \<Rightarrow> real \<Rightarrow> real \<Rightarrow> bool \<Rightarrow> bool
     \<Rightarrow> real option \<Rightarrow> error + binned" where
  "binning2_np np_interp np_arange x y xmin xmax dx window interp median weight =
     (case span x xmin xmax of
        Inl e \<Rightarrow> Inl e
      | Inr (start, stop) \<Rightarrow>
          if dx = 0 then Inl ZeroDivisionError
          else
            let steps = np_arange start stop dx; N = length steps in
            case for_each (binning2_step x y window median weight steps) [0..<N]
                   \<lparr>xb = replicate N None, yb = replicate N None, eb = replicate N None,
                    nb = replicate N None, sb = replicate N None\<rparr> of
              Inl e \<Rightarrow> Inl e
            | Inr b \<Rightarrow>
                if interp then
                  (case np_interp x (xb b) (yb b) of
                     None \<Rightarrow> Inr b
                   | Some yb' \<Rightarrow>
                      (case np_interp x (xb b) (eb b) of
                         None \<Rightarrow> Inr (b\<lparr>yb := yb'\<rparr>)
                       | Some eb' \<Rightarrow>
                          (case np_interp x (xb b) (sb b) of
                             None \<Rightarrow> Inr (b\<lparr>yb := yb', eb := eb'\<rparr>)
                           | Some sb' \<Rightarrow>
                               Inr (b\<lparr>yb := yb', eb := eb', sb := sb',
                                      xb := map Some x\<rparr>))))
                else Inr b)"

section \<open>Per-mission monthly series\<close>

text \<open>
  The effective number of samples of \<^verbatim>\<open>bin_mission\<close>:
  \<^verbatim>\<open>
  # Effective value for standard error
  if len(hb[~np.isnan(hb)]) != 0:
      # Number of data points
      n_dat = len(hb[~np.isnan(hb)])
      # De-correlation scale of 2 months
      n_eff = (n_dat * (1./12)) / (2. * (3./12))
  else:
      # Set to one otherwise
      n_eff = 1.0
  \<close>
\<close>

definition n_eff :: "fl list \<Rightarrow> real" where
  "n_eff hb =
     (if length (finite_values hb) \<noteq> 0
      then let n_dat = length (finite_values hb)
           in (real n_dat * (1 / 12)) / (2 * (3 / 12))
      else 1.0)"

text \<open>\<^verbatim>\<open>e.mean()\<close> of a non-empty array: NaN as soon as one entry is NaN.\<close>

definition np_mean :: "fl list \<Rightarrow> fl" where
  "np_mean xs = fl2 (/) (np_sum xs) (Some (real (length xs)))"

text \<open>
  The body of the loop of \<^verbatim>\<open>bin_mission\<close> for the observations \<open>t, h, e\<close> of one
  mission (\<^verbatim>\<open>ti[im], hi[im], ei[im]\<close>) and the current window \<open>win\<close>:
  \<^verbatim>\<open>
  m_rms = ei[im].mean() / np.sqrt(2.0)
  (tb, hb, eb, nb) = binning2(ti[im], hi[im], tstart, tstop, tstep, window=win,
                              median=False, weight=wi)[0:4]
  h_o = binning2(ti[im], hi[im], tstart, tstop, tstep, window=1./12,
                 median=True, weight=None)[1]
  hb[np.isnan(h_o)] = np.nan
  eb[np.isnan(h_o)] = np.nan
  nb[np.isnan(h_o)] = np.nan
  eb[eb < 0.01] = m_rms
  (n_eff as above)
  eb /= np.sqrt(n_eff)
  es = eb.copy()
  es[~np.isnan(es)] = m_rms
  et = np.sqrt(es ** 2 + eb ** 2)
  \<close>
  The result holds the row of each output array: \<open>xb\<close> the time vector, \<open>yb\<close> the
  series, \<open>eb\<close> the total error \<open>et\<close>, \<open>nb\<close> the counts; \<open>sb\<close> is not used.
\<close>

definition bin_one_mission ::
  "(real list \<Rightarrow> fl list \<Rightarrow> fl list \<Rightarrow> fl list option) \<Rightarrow> real list \<Rightarrow> fl list \<Rightarrow> fl list
     \<Rightarrow> real \<Rightarrow> real \<Rightarrow> real \<Rightarrow> real \<Rightarrow> real option \<Rightarrow> error + binned" where
  "bin_one_mission np_interp t h e tstart tstop tstep win wi =
     (let m_rms = fl2 (/) (np_mean e) (Some (sqrt 2)) in
      case binning2 np_interp t h (Some tstart) (Some tstop) tstep win False False wi of
        Inl err \<Rightarrow> Inl err
      | Inr b \<Rightarrow>
         (case binning2 np_interp t h (Some tstart) (Some tstop) tstep (1 / 12)
                 False True None of
            Inl err \<Rightarrow> Inl err
          | Inr orig \<Rightarrow>
              let gap = map isnan (yb orig);
                  hb = assign gap None (yb b);
                  eb1 = assign gap None (eb b);
                  nb1 = assign gap None (nb b);
                  eb2 = map (\<lambda>v. if fl_cmp (<) v (Some 0.01) then m_rms else v) eb1;
                  eb3 = map (\<lambda>v. fl2 (/) v (Some (sqrt (n_eff hb)))) eb2;
                  es = map (\<lambda>v. if isnan v then v else m_rms) eb3;
                  et = map (\<lambda>(s, v). map_option sqrt
                              (fl2 (+) (map_option (\<lambda>a. a ^ 2) s) (map_option (\<lambda>a. a ^ 2) v)))
                         (zip es eb3)
              in Inr \<lparr>xb = xb b, yb = hb, eb = et, nb = nb1, sb = []\<rparr>))"

text \<open>
  \<^verbatim>\<open>
  def bin_mission(ti, hi, mi, ei, tstart, tstop, tstep, win, wi=None):
      mu = np.unique(mi)
      tb = np.arange(tstart, tstop, tstep)
      hbi = np.ones((len(mu), len(tb))) * np.nan   (and ebi, mbi, tbi, nbi)
      for i in range(len(mu)):
          im = mi == mu[i]
          m_rms = ei[im].mean() / np.sqrt(2.0)
          if mu[i] == 8:
              win = 6/12.
          (body as above)
          hbi[i, :] = hb; ebi[i, :] = et; mbi[i, :] = mu[i]; tbi[i, :] = tb; nbi[i, :] = nb
      hbi[(nbi < 1)] = np.nan
      ebi[(nbi < 1)] = np.nan
      return tbi, hbi, ebi, nbi, mbi
  \<close>
  A two-dimensional array is the list of its rows. The window, once set to six months
  for mission 8, stays so for the missions after it: it is part of the state of the loop
  with the rows written so far. The boolean index \<^verbatim>\<open>ti[im]\<close> raises IndexError when the
  four input arrays differ in length.
\<close>

record series =
  tbi :: "fl list list"
  hbi :: "fl list list"
  ebi :: "fl list list"
  nbi :: "fl list list"
  mbi :: "int list list"

definition bin_mission_step ::
  "(real list \<Rightarrow> fl list \<Rightarrow> fl list \<Rightarrow> fl list option) \<Rightarrow> real list \<Rightarrow> fl list \<Rightarrow> int list
     \<Rightarrow> fl list \<Rightarrow> real \<Rightarrow> real \<Rightarrow> real \<Rightarrow> real option \<Rightarrow> int \<Rightarrow> real \<times> series
     \<Rightarrow> error + (real \<times> series)" where
  "bin_mission_step np_interp ti hi mi ei tstart tstop tstep wi m st =
     (if \<not> (length ti = length mi \<and> length hi = length mi \<and> length ei = length mi)
      then Inl IndexError
      else
        let im = map (\<lambda>v. v = m) mi;
            win = (if m = 8 then 6 / 12 else fst st);
            out = snd st
        in case bin_one_mission np_interp (select im ti) (select im hi) (select im ei)
                  tstart tstop tstep win wi of
             Inl err \<Rightarrow> Inl err
           | Inr r \<Rightarrow>
               Inr (win, out\<lparr>tbi := tbi out @ [xb r], hbi := hbi out @ [yb r],
                               ebi := ebi out @ [eb r], nbi := nbi out @ [nb r],
                               mbi := mbi out @ [map (\<lambda>v. m) (xb r)]\<rparr>))"

definition bin_mission ::
  "(real list \<Rightarrow> fl list \<Rightarrow> fl list \<Rightarrow> fl list option) \<Rightarrow> real list \<Rightarrow> fl list \<Rightarrow> int list
     \<Rightarrow> fl list \<Rightarrow> real \<Rightarrow> real \<Rightarrow> real \<Rightarrow> real \<Rightarrow> real option \<Rightarrow> error + series" where
  "bin_mission np_interp ti hi mi ei tstart tstop tstep win wi =
     (if tstep = 0 then Inl ZeroDivisionError
      else
        case for_each (bin_mission_step np_interp ti hi mi ei tstart tstop tstep wi)
               (sort (remdups mi))
               (win, \<lparr>tbi = [], hbi = [], ebi = [], nbi = [], mbi = []\<rparr>) of
          Inl err \<Rightarrow> Inl err
        | Inr (w, out) \<Rightarrow>
            let reject = map (map (\<lambda>v. fl_cmp (<) v (Some 1))) (nbi out) in
            Inr (out\<lparr>hbi := map (\<lambda>(r, row). assign r None row) (zip reject (hbi out)),
                     ebi := map (\<lambda>(r, row). assign r None row) (zip reject (ebi out))\<rparr>))"

section \<open>Robust solver\<close>

text \<open>
  \<^verbatim>\<open>
  def lsq_solve(X, y, n_iter=1, n_sigma=5, threshold=100):
      n = 0
      while n <= n_iter :
          i_o = ~np.isnan(y)
          X = X[i_o,:]
          y = y[i_o]
          n_lim = len(X.T)
          n_obs = len(y)
          if n_obs > n_lim + 1:
              x = np.linalg.lstsq(X, y)[0]
              res = y - X.dot(x)
              i_o = (np.abs(res) > n_sigma * mad_std(res)) | (np.abs(res) > threshold)
              y[i_o] = np.nan
              n_out = len(y[~np.isnan(y)])
              if n_out == n_obs:
                  break
          else:
              break
          n += 1
      return x
  \<close>
  The design matrix is the list of its rows with its number of columns (which row
  selection keeps, also when no row is left). The library solver \<^verbatim>\<open>np.linalg.lstsq\<close> is
  the parameter \<open>lstsq\<close>. The local variable \<open>x\<close> is unbound until the first solve: it is
  an \<open>option\<close>, and \<^verbatim>\<open>return x\<close> of the unbound variable raises UnboundLocalError.
\<close>

record matrix =
  ncols :: nat
  rows :: "real list list"

definition dot :: "real list \<Rightarrow> real list \<Rightarrow> real" where
  "dot r x = sum_list (map (\<lambda>(a, b). a * b) (zip r x))"

definition return_x :: "real list option \<Rightarrow> error + real list" where
  "return_x x = (case x of None \<Rightarrow> Inl UnboundLocalError | Some v \<Rightarrow> Inr v)"

function lsq_loop ::
  "(real list list \<Rightarrow> fl list \<Rightarrow> real list) \<Rightarrow> matrix \<Rightarrow> fl list \<Rightarrow> int \<Rightarrow> real \<Rightarrow> real
     \<Rightarrow> int \<Rightarrow> real list option \<Rightarrow> error + real list" where
  "lsq_loop lstsq X y n_iter n_sigma threshold n x =
     (if n \<le> n_iter then
        if length (rows X) \<noteq> length y then Inl IndexError
        else
          let i_o = map (\<lambda>v. \<not> isnan v) y;
              X1 = X\<lparr>rows := select i_o (rows X)\<rparr>;
              y1 = select i_o y;
              n_lim = ncols X1;
              n_obs = length y1
          in if n_obs > n_lim + 1 then
               let x1 = lstsq (rows X1) y1;
                   res = map (\<lambda>(v, r). fl2 (-) v (Some (dot r x1))) (zip y1 (rows X1));
                   out = map (\<lambda>r. fl_cmp (>) (map_option abs r)
                                      (fl2 (*) (Some n_sigma) (mad_std res))
                                  \<or> fl_cmp (>) (map_option abs r) (Some threshold)) res;
                   y2 = assign out None y1;
                   n_out = length (finite_values y2)
               in if n_out = n_obs then return_x (Some x1)
                  else lsq_loop lstsq X1 y2 n_iter n_sigma threshold (n + 1) (Some x1)
             else return_x x
      else return_x x)"
  by pat_completeness auto
termination
  by (relation "measure (\<lambda>(lstsq, X, y, n_iter, n_sigma, threshold, n, x). nat (n_iter + 1 - n))")
    auto

definition lsq_solve ::
  "(real list list \<Rightarrow> fl list \<Rightarrow> real list) \<Rightarrow> matrix \<Rightarrow> fl list \<Rightarrow> int \<Rightarrow> real \<Rightarrow> real
     \<Rightarrow> error + real list" where
  "lsq_solve lstsq X y n_iter n_sigma threshold =
     lsq_loop lstsq X y n_iter n_sigma threshold 0 None"

section \<open>Residual cross-calibration\<close>

text \<open>
  \<^verbatim>\<open>
  to = np.array([[1995 + 05. / 12. - .5, 1996 + 05. / 12. + .5],  # ERS-1 and ERS-2 (1)
                 [2002 + 10. / 12. - .5, 2003 + 06. / 12. + .5],  # ERS-2 and RAA-2 (2)
                 [2010 + 06. / 12. - .5, 2010 + 10. / 12. + .5]]) # RAA-2 and CRS-2 (3)
  mo = np.array([[1, 0],  # ERS-2 and ERS-1 (5,6)
                 [2, 1],  # ERS-2 and RAA-2 (3,5)
                 [3, 2]]) # RAA-2 and ICE-1 (3,0)
  \<close>
\<close>

definition overlap_to :: "(real \<times> real) list" where
  "overlap_to = [(1995 + 5 / 12 - 0.5, 1996 + 5 / 12 + 0.5),
                 (2002 + 10 / 12 - 0.5, 2003 + 6 / 12 + 0.5),
                 (2010 + 6 / 12 - 0.5, 2010 + 10 / 12 + 0.5)]"

definition overlap_mo :: "(int \<times> int) list" where
  "overlap_mo = [(1, 0), (2, 1), (3, 2)]"

text \<open>
  The statistics of one overlap, for the times and residuals \<open>t0, h0\<close> of the first group
  of the rule and \<open>t1, h1\<close> of the second:
  \<^verbatim>\<open>
  try:
      tmin, tmax = t0.min() - 1 / 12, t1.max() + 1 / 12
      b0 = binning(t0, h0, tmin, tmax,dx=1./12)[1]
      b1 = binning(t1, h1, tmin, tmax,dx=1./12)[1]
      s0 = np.nanstd(b0)
      s1 = np.nanstd(b0)
      n0 = len(b0[~np.isnan(b0)])
      n1 = len(b1[~np.isnan(b0)])
      diff = np.nanmedian(b0 - b1)
  except:
      b0, b1, s0, s1, n0, n1 = np.nan, np.nan, np.nan, np.nan, np.nan, np.nan
      diff = np.nan
  \<close>
  \<open>None\<close> stands for the \<^verbatim>\<open>except\<close> branch, where everything is NaN. The minimum of an
  empty array raises ValueError, as \<open>binning\<close> may.
\<close>

record overlap =
  o_b0 :: "fl list"
  o_b1 :: "fl list"
  o_s0 :: fl
  o_s1 :: fl
  o_n0 :: nat
  o_n1 :: nat
  o_diff :: fl

definition overlap_stats ::
  "real list \<Rightarrow> fl list \<Rightarrow> real list \<Rightarrow> fl list \<Rightarrow> overlap option" where
  "overlap_stats t0 h0 t1 h1 =
     (if t0 = [] \<or> t1 = [] then None
      else
        let tmin = Min (set t0) - 1 / 12; tmax = Max (set t1) + 1 / 12 in
        case binning t0 h0 tmin tmax (1 / 12) of
          Inl e \<Rightarrow> None
        | Inr r0 \<Rightarrow>
           (case binning t1 h1 tmin tmax (1 / 12) of
              Inl e \<Rightarrow> None
            | Inr r1 \<Rightarrow>
                let b0 = yb r0; b1 = yb r1 in
                Some \<lparr>o_b0 = b0, o_b1 = b1,
                      o_s0 = nanstd b0,
                      o_s1 = nanstd b0,
                      o_n0 = length (finite_values b0),
                      o_n1 = length (select (map (\<lambda>v. \<not> isnan v) b0) b1),
                      o_diff = nanmedian (map (\<lambda>(u, v). fl2 (-) u v) (zip b0 b1))\<rparr>))"

text \<open>
  The offset of rule \<open>i\<close> after the test criterion:
  \<^verbatim>\<open>
  b0m = np.nanmean(b0)
  b1m = np.nanmean(b1)
  i0_min, i0_max, i1_min, i1_max = b0m - a * s0, b0m + a * s0, b1m - a * s1, b1m + a * s1
  if i == 0:
      nlim = 1
      i0_min, i0_max, i1_min, i1_max = 0, 0, 0, 0
  else:
      nlim = 1
  if np.isnan(diff):
      b0, b1 = 0, 0
      diff = 0
  elif (n0 <= nlim) or (n1 <= nlim):
      b0, b1 = 0, 0
      diff=0
  elif (i0_max > i1_min) and (i0_min < i1_max):
      b0, b1 = 0, 0
      diff=0
  elif np.abs(diff) > 10.0:
      b0, b1 = 0, 0
      diff=0
  else:
      pass
  \<close>
\<close>

definition rule_diff ::
  "real \<Rightarrow> nat \<Rightarrow> real list \<Rightarrow> fl list \<Rightarrow> real list \<Rightarrow> fl list \<Rightarrow> real" where
  "rule_diff a i t0 h0 t1 h1 =
     (case overlap_stats t0 h0 t1 h1 of
        None \<Rightarrow> 0
      | Some ov \<Rightarrow>
          let b0m = nanmean (o_b0 ov);
              b1m = nanmean (o_b1 ov);
              i0_min = (if i = 0 then Some 0 else fl2 (-) b0m (fl2 (*) (Some a) (o_s0 ov)));
              i0_max = (if i = 0 then Some 0 else fl2 (+) b0m (fl2 (*) (Some a) (o_s0 ov)));
              i1_min = (if i = 0 then Some 0 else fl2 (-) b1m (fl2 (*) (Some a) (o_s1 ov)));
              i1_max = (if i = 0 then Some 0 else fl2 (+) b1m (fl2 (*) (Some a) (o_s1 ov)));
              nlim = 1
          in case o_diff ov of
               None \<Rightarrow> 0
             | Some d \<Rightarrow>
                 if o_n0 ov \<le> nlim \<or> o_n1 ov \<le> nlim then 0
                 else if fl_cmp (>) i0_max i1_min \<and> fl_cmp (<) i0_min i1_max then 0
                 else if \<bar>d\<bar> > 10.0 then 0
                 else d)"

text \<open>
  The selection of the two groups of rule \<open>i\<close> inside its time window, and the offset of
  the rule. The group of an observation is an \<open>int option\<close>: \<open>None\<close> for the NaN of a
  mission that \<^verbatim>\<open>main\<close> maps to no group.
  \<^verbatim>\<open>
  im = (ti >= to[i, 0]) & (ti <= to[i, 1])
  t0, t1 = ti[im][mi[im] == mo[i, 0]], ti[im][mi[im] == mo[i, 1]]
  h0, h1 = dh[im][mi[im] == mo[i, 0]], dh[im][mi[im] == mo[i, 1]]
  \<close>
\<close>

definition group_in_window ::
  "real list \<Rightarrow> 'a list \<Rightarrow> int option list \<Rightarrow> nat \<Rightarrow> int \<Rightarrow> 'a list" where
  "group_in_window ti v mi i g =
     (let im = map (\<lambda>t. fst (overlap_to ! i) \<le> t \<and> t \<le> snd (overlap_to ! i)) ti
      in select (map (\<lambda>m. m = Some g) (select im mi)) (select im v))"

definition overlap_diff ::
  "real \<Rightarrow> real list \<Rightarrow> fl list \<Rightarrow> int option list \<Rightarrow> nat \<Rightarrow> real" where
  "overlap_diff a ti dh mi i =
     rule_diff a i
       (group_in_window ti ti mi i (fst (overlap_mo ! i)))
       (group_in_window ti dh mi i (fst (overlap_mo ! i)))
       (group_in_window ti ti mi i (snd (overlap_mo ! i)))
       (group_in_window ti dh mi i (snd (overlap_mo ! i)))"

text \<open>
  \<^verbatim>\<open>
  def cross_calibrate(ti, hi, dh, mi, a):
      hb = np.zeros(hi.shape)
      flag = 0
      b_ref = 0
      for i in range(len(to)):
          (selection, statistics and test criterion as above)
          hb[mi == mo[i, 0]] = b_ref + diff
          b_ref = b_ref + diff
          if (diff != 0): flag += 1
      return hb, flag
  \<close>
  The state of the loop is the bias vector \<open>hb\<close>, the reference bias \<open>b_ref\<close> (the
  ledger) and the counter \<open>flag\<close>. A boolean index of another length than the array
  raises IndexError.
\<close>

definition calibrate_step ::
  "real \<Rightarrow> real list \<Rightarrow> fl list \<Rightarrow> int option list \<Rightarrow> nat \<Rightarrow> real list \<times> real \<times> nat
     \<Rightarrow> error + (real list \<times> real \<times> nat)" where
  "calibrate_step a ti dh mi i st =
     (case st of (hb, b_ref, flag) \<Rightarrow>
        if length mi = length ti \<and> length dh = length ti \<and> length hb = length mi
        then
          let diff = overlap_diff a ti dh mi i in
          Inr (assign (map (\<lambda>m. m = Some (fst (overlap_mo ! i))) mi) (b_ref + diff) hb,
               b_ref + diff,
               if diff \<noteq> 0 then flag + 1 else flag)
        else Inl IndexError)"

definition cross_calibrate ::
  "real list \<Rightarrow> fl list \<Rightarrow> fl list \<Rightarrow> int option list \<Rightarrow> real
     \<Rightarrow> error + (real list \<times> nat)" where
  "cross_calibrate ti hi dh mi a =
     (case for_each (calibrate_step a ti dh mi) [0..<length overlap_to]
             (replicate (length hi) 0, 0, 0) of
        Inl e \<Rightarrow> Inl e
      | Inr (hb, b_ref, flag) \<Rightarrow> Inr (hb, flag))"

section \<open>Seasonal normalization\<close>

text \<open>
  \<^verbatim>\<open>
  def normalize_seasonal(xs, ys, ts, hs, ms, Xm, Ym, C0, C1, t0):
      h_out = np.zeros(hs.shape)
      mi = np.unique(ms)
      C0r = np.nanmedian(C0[0:3, :, :], axis=0)
      C1r = np.nanmedian(C1[0:3, :, :], axis=0)
      for kx in range(len(mi)):
          if mi[kx] < 3: continue
          i_s = (ms == mi[kx])
          h_s = hs[i_s]
          t_s = ts[i_s]
          xs_i, ys_i = xs[i_s].mean(), ys[i_s].mean()
          c0r = interp2d(Xm, Ym, C0r, xs_i, ys_i, order=1)
          c1r = interp2d(Xm, Ym, C1r, xs_i, ys_i, order=1)
          c0m = interp2d(Xm, Ym, C0[int(mi[kx]), :, :], xs_i, ys_i, order=1)
          c1m = interp2d(Xm, Ym, C1[int(mi[kx]), :, :], xs_i, ys_i, order=1)
          a_ref = np.sqrt(c0r**2 + c1r**2)
          a_sat = np.sqrt(c0m**2 + c1m**2)
          sin = c0m * np.sin(2 * np.pi * (t_s - 0))
          cos = c1m * np.cos(2 * np.pi * (t_s - 0))
          if a_ref / a_sat > 1: continue
          h_c = (1 - (a_ref / a_sat)) * (sin + cos)
          h_out[i_s] = h_c
      return h_out
  \<close>
  The rasters and their bilinear interpolation (\<^verbatim>\<open>interp2d\<close>, a wrapper of scipy's
  \<^verbatim>\<open>map_coordinates\<close>) are parameters: \<open>ref_coef x y\<close> is the pair \<open>(c0r, c1r)\<close> of the
  reference coefficients interpolated at a point, and \<open>sat_coef m\<close> is the interpolation
  \<open>(c0m, c1m)\<close> of layer \<open>m\<close> of \<^verbatim>\<open>C0\<close> and \<^verbatim>\<open>C1\<close>, or \<open>None\<close> when the rasters have no such
  layer (\<^verbatim>\<open>C0[int(mi[kx])]\<close> raises IndexError). The boolean index \<^verbatim>\<open>hs[i_s]\<close> raises
  IndexError when the arrays differ in length.
\<close>

text \<open>
  Assignment of an array through a boolean array, \<^verbatim>\<open>xs[msk] = vs\<close>: the values go to the
  selected positions in order.
\<close>

fun put :: "bool list \<Rightarrow> 'a list \<Rightarrow> 'a list \<Rightarrow> 'a list" where
  "put (True # msk) (v # vs) (x # xs) = v # put msk vs xs"
| "put (False # msk) vs (x # xs) = x # put msk vs xs"
| "put msk vs xs = xs"

text \<open>\<^verbatim>\<open>np.sqrt(c0**2 + c1**2)\<close> of an interpolated pair of coefficients.\<close>

definition amplitude :: "fl \<times> fl \<Rightarrow> fl" where
  "amplitude c = map_option sqrt
     (fl2 (+) (map_option (\<lambda>v. v ^ 2) (fst c)) (map_option (\<lambda>v. v ^ 2) (snd c)))"

text \<open>
  The test \<^verbatim>\<open>a_ref / a_sat > 1\<close> in IEEE arithmetic: division of a positive number by
  zero gives infinity (the test holds), \<open>0 / 0\<close> gives NaN (it does not).
\<close>

definition ratio_gt_one :: "fl \<Rightarrow> fl \<Rightarrow> bool" where
  "ratio_gt_one a_ref a_sat =
     (case (a_ref, a_sat) of
        (Some r, Some s) \<Rightarrow> if s = 0 then 0 < r else 1 < r / s
      | _ \<Rightarrow> False)"

text \<open>
  The factor \<^verbatim>\<open>1 - (a_ref / a_sat)\<close>, where the test above did not hold: NaN for \<open>0 / 0\<close>
  (amplitudes are square roots, so a negative number over zero does not occur).
\<close>

definition one_minus_ratio :: "fl \<Rightarrow> fl \<Rightarrow> fl" where
  "one_minus_ratio a_ref a_sat =
     (case (a_ref, a_sat) of
        (Some r, Some s) \<Rightarrow> if s = 0 then None else Some (1 - r / s)
      | _ \<Rightarrow> None)"

text \<open>\<^verbatim>\<open>v.mean()\<close> of an array of coordinates.\<close>

definition np_mean_real :: "real list \<Rightarrow> real" where
  "np_mean_real v = sum_list v / real (length v)"

text \<open>
  The reference amplitude \<open>a_ref\<close> and the amplitude \<open>a_sat\<close> of mission \<open>m\<close>, interpolated
  at the mean position of the observations of the mission, as the loop computes them.
\<close>

definition mission_amplitudes ::
  "(real \<Rightarrow> real \<Rightarrow> fl \<times> fl) \<Rightarrow> (int \<Rightarrow> (real \<Rightarrow> real \<Rightarrow> fl \<times> fl) option)
     \<Rightarrow> real list \<Rightarrow> real list \<Rightarrow> int list \<Rightarrow> int \<Rightarrow> (fl \<times> fl) option" where
  "mission_amplitudes ref_coef sat_coef xs ys ms m =
     (let i_s = map (\<lambda>v. v = m) ms;
          xs_i = np_mean_real (select i_s xs);
          ys_i = np_mean_real (select i_s ys)
      in case sat_coef m of
           None \<Rightarrow> None
         | Some layer \<Rightarrow> Some (amplitude (ref_coef xs_i ys_i), amplitude (layer xs_i ys_i)))"

definition seasonal_step ::
  "(real \<Rightarrow> real \<Rightarrow> fl \<times> fl) \<Rightarrow> (int \<Rightarrow> (real \<Rightarrow> real \<Rightarrow> fl \<times> fl) option)
     \<Rightarrow> real list \<Rightarrow> real list \<Rightarrow> real list \<Rightarrow> fl list \<Rightarrow> int list \<Rightarrow> int \<Rightarrow> fl list
     \<Rightarrow> error + fl list" where
  "seasonal_step ref_coef sat_coef xs ys ts hs ms m h_out =
     (if m < 3 then Inr h_out
      else if \<not> (length hs = length ms \<and> length ts = length ms
                 \<and> length xs = length ms \<and> length ys = length ms)
      then Inl IndexError
      else
        let i_s = map (\<lambda>v. v = m) ms;
            t_s = select i_s ts;
            xs_i = np_mean_real (select i_s xs);
            ys_i = np_mean_real (select i_s ys)
        in case sat_coef m of
             None \<Rightarrow> Inl IndexError
           | Some layer \<Rightarrow>
               let c0m = fst (layer xs_i ys_i);
                   c1m = snd (layer xs_i ys_i);
                   a_ref = amplitude (ref_coef xs_i ys_i);
                   a_sat = amplitude (layer xs_i ys_i);
                   sin_s = map (\<lambda>t. fl2 (*) c0m (Some (sin (2 * pi * (t - 0))))) t_s;
                   cos_s = map (\<lambda>t. fl2 (*) c1m (Some (cos (2 * pi * (t - 0))))) t_s
               in if ratio_gt_one a_ref a_sat then Inr h_out
                  else
                    let h_c = map (\<lambda>(s, c). fl2 (*) (one_minus_ratio a_ref a_sat) (fl2 (+) s c))
                                (zip sin_s cos_s)
                    in Inr (put i_s h_c h_out))"

definition normalize_seasonal ::
  "(real \<Rightarrow> real \<Rightarrow> fl \<times> fl) \<Rightarrow> (int \<Rightarrow> (real \<Rightarrow> real \<Rightarrow> fl \<times> fl) option)
     \<Rightarrow> real list \<Rightarrow> real list \<Rightarrow> real list \<Rightarrow> fl list \<Rightarrow> int list \<Rightarrow> error + fl list" where
  "normalize_seasonal ref_coef sat_coef xs ys ts hs ms =
     for_each (seasonal_step ref_coef sat_coef xs ys ts hs ms) (sort (remdups ms))
       (replicate (length hs) (Some 0))"

text \<open>
  Mission \<open>m\<close> is of the reference class, or its amplitude is below the reference
  amplitude.
\<close>

definition weaker_or_reference ::
  "(real \<Rightarrow> real \<Rightarrow> fl \<times> fl) \<Rightarrow> (int \<Rightarrow> (real \<Rightarrow> real \<Rightarrow> fl \<times> fl) option)
     \<Rightarrow> real list \<Rightarrow> real list \<Rightarrow> int list \<Rightarrow> int \<Rightarrow> bool" where
  "weaker_or_reference ref_coef sat_coef xs ys ms m =
     (m < 3 \<or> (case mission_amplitudes ref_coef sat_coef xs ys ms m of
                  Some (a_ref, a_sat) \<Rightarrow> fl_cmp (<) a_sat a_ref
                | None \<Rightarrow> False))"

section \<open>The coverage gates of the grid driver\<close>

text \<open>
  The observations of one neighbourhood, \<^verbatim>\<open>x[idx], y[idx], time[idx], elev[idx],
  sigma[idx], mode[idx]\<close> for the indices \<^verbatim>\<open>idx\<close> that the k-d tree returns: one record
  per index.
\<close>

record obs =
  ox :: real
  oy :: real
  otime :: real
  oelev :: fl
  osigma :: fl
  omode :: int

text \<open>The coverage statistics of a neighbourhood (lines 1256-1293 of the program).\<close>

record cover =
  nobs :: int
  dt :: real
  nsen :: int
  npct :: real

text \<open>
  \<^verbatim>\<open>
  if nobs > nlim:
      if dt > dtlim:
          if nsen >= nmlim:
              if npct > 0.70:
                  break
  \<close>
\<close>

definition constraints_met :: "int \<Rightarrow> real \<Rightarrow> int \<Rightarrow> cover \<Rightarrow> bool" where
  "constraints_met nlim dtlim nmlim c =
     (nlim < nobs c \<and> dtlim < dt c \<and> nmlim \<le> nsen c \<and> 0.70 < npct c)"

text \<open>
  \<^verbatim>\<open>
  nobs = 0; dt = 0; npct = 1; nsen = 0
  for ii in range(1):
      idx = tree.query_ball_point((xi_, yi_), dr[1])
      if len(time[idx]) == 0:
          continue
      dt   = np.max(time[idx]) - np.min(time[idx])
      nobs = len(time[idx])
      nsen = len(np.unique(mode[idx]))
      t_sample = binning(time[idx], time[idx], time[idx].min(), time[idx].max(), 1.0/12.)[1]
      if len(t_sample) == 0: continue
      npct = np.float(len(t_sample[~np.isnan(t_sample)])) / len(t_sample)
      if nobs > nlim: ... break
  \<close>
  The loop has one iteration, so \<^verbatim>\<open>continue\<close> and \<^verbatim>\<open>break\<close> both end it. The result is
  the statistics and whether the loop was left by \<^verbatim>\<open>break\<close>. The sampling fraction is
  computed through the idealised \<open>binning\<close>; the bin edges that numpy computes in double
  precision can leave an observation at the end of the span outside the last bin, and
  the fraction is then lower than the one here. The properties below evaluate it only
  where the two agree.
\<close>

definition coverage ::
  "int \<Rightarrow> real \<Rightarrow> int \<Rightarrow> real list \<Rightarrow> int list \<Rightarrow> error + (cover \<times> bool)" where
  "coverage nlim dtlim nmlim time mode =
     (if length time = 0 then Inr (\<lparr>nobs = 0, dt = 0, nsen = 0, npct = 1\<rparr>, False)
      else
        let dt' = Max (set time) - Min (set time);
            nobs' = int (length time);
            nsen' = int (length (remdups mode))
        in case binning time (map Some time) (Min (set time)) (Max (set time)) (1 / 12) of
             Inl e \<Rightarrow> Inl e
           | Inr b \<Rightarrow>
               let t_sample = yb b in
               if length t_sample = 0
               then Inr (\<lparr>nobs = nobs', dt = dt', nsen = nsen', npct = 1\<rparr>, False)
               else
                 let c = \<lparr>nobs = nobs', dt = dt', nsen = nsen',
                          npct = real (length (finite_values t_sample))
                                 / real (length t_sample)\<rparr>
                 in Inr (c, constraints_met nlim dtlim nmlim c))"

text \<open>
  \<^verbatim>\<open>if (nobs < nlim) or (dt < dtlim) or (npct < 0.0): continue\<close>: true when the cell is
  skipped.
\<close>

definition final_test :: "int \<Rightarrow> real \<Rightarrow> cover \<Rightarrow> bool" where
  "final_test nlim dtlim c = (nobs c < nlim \<or> dt c < dtlim \<or> npct c < 0.0)"

text \<open>
  \<^verbatim>\<open>
  i_upd, = np.where((xcap >= xc - 0.5 * dx) & (xcap <= xc + 0.5 * dx) &
                    (ycap >= yc - 0.5 * dy) & (ycap <= yc + 0.5 * dy))
  \<close>
\<close>

definition footprint :: "real \<Rightarrow> real \<Rightarrow> real \<Rightarrow> real \<Rightarrow> obs list \<Rightarrow> nat list" where
  "footprint dx dy xc yc cap =
     filter (\<lambda>i. xc - 0.5 * dx \<le> ox (cap ! i) \<and> ox (cap ! i) \<le> xc + 0.5 * dx
               \<and> yc - 0.5 * dy \<le> oy (cap ! i) \<and> oy (cap ! i) \<le> yc + 0.5 * dy)
       [0..<length cap]"

text \<open>
  One iteration of the prediction loop of \<^verbatim>\<open>main\<close> up to the fit (lines 1254-1322).
  The rest of the iteration (lines 1325-1534: filtering, fit, cross-calibration and the
  append to the output lists, with its own \<^verbatim>\<open>continue\<close>) is the parameter \<open>rest\<close>; it
  returns the bundle appended to the output, or \<open>None\<close> when it skips the cell. A cell
  skipped by \<^verbatim>\<open>continue\<close> appends nothing: \<open>None\<close>.
\<close>

definition main_cell ::
  "(obs list \<Rightarrow> nat list \<Rightarrow> error + 'out option) \<Rightarrow> int \<Rightarrow> real \<Rightarrow> int
     \<Rightarrow> real \<Rightarrow> real \<Rightarrow> real \<Rightarrow> real \<Rightarrow> obs list \<Rightarrow> error + 'out option" where
  "main_cell rest nlim dtlim nmlim dx dy xc yc cap =
     (case coverage nlim dtlim nmlim (map otime cap) (map omode cap) of
        Inl e \<Rightarrow> Inl e
      | Inr (c, broke) \<Rightarrow>
          if final_test nlim dtlim c then Inr None
          else
            let i_upd = footprint dx dy xc yc cap in
            if length i_upd = 5 then Inr None
            else rest cap i_upd)"

section \<open>Properties\<close>

subsection \<open>Lists and medians\<close>

lemma replicate_numeral: "replicate (numeral k) x = x # replicate (pred_numeral k) x"
  by (simp add: numeral_eq_Suc)

lemma finite_values_append:
  "finite_values (xs @ ys) = finite_values xs @ finite_values ys"
  by (induction xs rule: finite_values.induct) simp_all

lemma finite_values_map_Some: "finite_values (map Some xs) = xs"
  by (induction xs) simp_all

lemma finite_values_deviation:
  "finite_values (map (\<lambda>v. map_option abs (fl2 (-) v (Some m))) x)
     = map (\<lambda>r. \<bar>r - m\<bar>) (finite_values x)"
  by (induction x rule: finite_values.induct) simp_all

lemma finite_values_all_None: "finite_values (map (\<lambda>v. None) x) = []"
  by (induction x) simp_all

lemma fl2_None_right: "fl2 f v None = None"
  by (cases v) simp_all

lemma np_median_cases:
  assumes "xs \<noteq> []"
  obtains a where "a \<in> set xs" "np_median xs = a"
  | a b where "a \<in> set xs" "b \<in> set xs" "np_median xs = (a + b) / 2"
proof -
  let ?s = "sort xs"
  let ?n = "length ?s"
  have n: "0 < ?n" using assms by simp
  have mem: "\<And>i. i < ?n \<Longrightarrow> ?s ! i \<in> set xs"
    using nth_mem [of _ ?s] by simp
  show thesis
  proof (cases "?n mod 2 = 1")
    case True
    have "?s ! (?n div 2) \<in> set xs" using n by (intro mem) simp
    moreover have "np_median xs = ?s ! (?n div 2)"
      using True by (simp add: np_median_def)
    ultimately show thesis using that(1) by blast
  next
    case False
    have "?s ! (?n div 2 - 1) \<in> set xs" using n by (intro mem) arith
    moreover have "?s ! (?n div 2) \<in> set xs" using n by (intro mem) simp
    moreover have "np_median xs = (?s ! (?n div 2 - 1) + ?s ! (?n div 2)) / 2"
      using False by (simp add: np_median_def Let_def)
    ultimately show thesis using that(2) by blast
  qed
qed

lemma np_median_nonneg:
  assumes "xs \<noteq> []" and "\<And>v. v \<in> set xs \<Longrightarrow> 0 \<le> v"
  shows "0 \<le> np_median xs"
  using assms(1)
proof (cases rule: np_median_cases)
  case (1 a)
  then show ?thesis using assms(2) by simp
next
  case (2 a b)
  then show ?thesis using assms(2) [of a] assms(2) [of b] by simp
qed

lemma np_median_const:
  assumes "xs \<noteq> []" and "\<And>v. v \<in> set xs \<Longrightarrow> v = c"
  shows "np_median xs = c"
  using assms(1)
proof (cases rule: np_median_cases)
  case (1 a)
  then show ?thesis using assms(2) by simp
next
  case (2 a b)
  then show ?thesis using assms(2) [of a] assms(2) [of b] by simp
qed

lemma mad_std_finite:
  assumes "finite_values x \<noteq> []"
  shows "mad_std x
    = Some (1.4826 * np_median (map (\<lambda>r. \<bar>r - np_median (finite_values x)\<bar>) (finite_values x)))"
  using assms by (simp add: mad_std_def nanmedian_def finite_values_deviation)

lemma mad_std_no_finite:
  assumes "finite_values x = []"
  shows "mad_std x = None"
  using assms by (simp add: mad_std_def nanmedian_def fl2_None_right finite_values_all_None)

subsection \<open>Fixed binning\<close>

lemma for_each_append:
  "for_each body (xs @ ys) s =
     (case for_each body xs s of Inl e \<Rightarrow> Inl e | Inr s' \<Rightarrow> for_each body ys s')"
  by (induction xs arbitrary: s) (simp_all split: sum.splits)

lemma length_arange: "length (arange start stop step) = nat \<lceil>(stop - start) / step\<rceil>"
  by (simp add: arange_def)

lemma nth_arange:
  "i < nat \<lceil>(stop - start) / step\<rceil> \<Longrightarrow> arange start stop step ! i = start + real i * step"
  by (simp add: arange_def)

lemma arange_edges:
  assumes "0 < dx" and "xmin \<le> xmax"
  shows "nat \<lceil>(xmax + dx - xmin) / dx\<rceil> = Suc (nat \<lceil>(xmax - xmin) / dx\<rceil>)"
proof -
  have eq: "(xmax + dx - xmin) / dx = (xmax - xmin) / dx + 1"
    using assms(1) by (simp add: field_simps)
  have "0 \<le> (xmax - xmin) / dx"
    using assms by simp
  then have "0 \<le> \<lceil>(xmax - xmin) / dx\<rceil>"
    by (simp add: le_ceiling_iff)
  then have "nat (\<lceil>(xmax - xmin) / dx\<rceil> + 1) = Suc (nat \<lceil>(xmax - xmin) / dx\<rceil>)"
    by (simp add: nat_add_distrib)
  then show ?thesis by (simp add: eq)
qed

lemma binning_loop:
  assumes len: "length y = length x"
    and b0: "length (yb b0) = N" "length (eb b0) = N" "length (nb b0) = N" "length (sb b0) = N"
    and n: "n \<le> N"
  shows "\<exists>b. for_each (binning_step x y bins) [0..<n] b0 = Inr b
    \<and> xb b = xb b0
    \<and> length (yb b) = N \<and> length (eb b) = N \<and> length (nb b) = N \<and> length (sb b) = N
    \<and> (\<forall>i<N. bin_entry x y bins b0 n i b)"
  using n
proof (induction n)
  case 0
  show ?case using b0 by (simp add: bin_entry_def)
next
  case (Suc n)
  then obtain b where b: "for_each (binning_step x y bins) [0..<n] b0 = Inr b"
    "xb b = xb b0" "length (yb b) = N" "length (eb b) = N" "length (nb b) = N"
    "length (sb b) = N" "\<And>i. i < N \<Longrightarrow> bin_entry x y bins b0 n i b"
    by auto
  let ?v = "bin_values x y (bins ! n) (bins ! (n + 1))"
  show ?case
  proof (cases "?v = []")
    case True
    then have "for_each (binning_step x y bins) [0..<Suc n] b0 = Inr b"
      using b(1) len by (simp add: for_each_append binning_step_def)
    moreover have "bin_entry x y bins b0 (Suc n) i b" if "i < N" for i
      using b(7) [OF that] True by (cases "i = n") (auto simp: bin_entry_def Let_def less_Suc_eq)
    ultimately show ?thesis using b by auto
  next
    case False
    let ?b = "b\<lparr>yb := (yb b)[n := nanmedian ?v], eb := (eb b)[n := nanstd ?v],
                nb := (nb b)[n := Some (real (length ?v))], sb := (sb b)[n := np_sum ?v]\<rparr>"
    have "for_each (binning_step x y bins) [0..<Suc n] b0 = Inr ?b"
      using b(1) len False by (simp add: for_each_append binning_step_def Let_def)
    moreover have "bin_entry x y bins b0 (Suc n) i ?b" if "i < N" for i
      using b(7) [OF that] False that b(3-6) Suc.prems
      by (cases "i = n") (auto simp: bin_entry_def Let_def less_Suc_eq)
    ultimately show ?thesis using b by auto
  qed
qed

text \<open>
  The result of \<open>binning\<close> with the idealised \<open>arange\<close>: the edges are the multiples
  \<open>xmin + i dx\<close>. In particular the call returns.
\<close>

lemma binning_spec:
  assumes "0 < dx" and "xmin \<le> xmax" and "length y = length x"
  defines "N \<equiv> nat \<lceil>(xmax - xmin) / dx\<rceil>"
  shows "\<exists>b. binning x y xmin xmax dx = Inr b
    \<and> length (xb b) = N \<and> length (yb b) = N \<and> length (eb b) = N
    \<and> length (nb b) = N \<and> length (sb b) = N
    \<and> (\<forall>i<N. xb b ! i = Some (xmin + real i * dx + dx / 2)
        \<and> (let v = bin_values x y (xmin + real i * dx) (xmin + real (i + 1) * dx) in
            if v = []
            then yb b ! i = None \<and> eb b ! i = None \<and> nb b ! i = None \<and> sb b ! i = None
            else yb b ! i = nanmedian v \<and> eb b ! i = nanstd v
               \<and> nb b ! i = Some (real (length v)) \<and> sb b ! i = np_sum v))"
proof -
  let ?bins = "arange xmin (xmax + dx) dx"
  let ?b0 = "\<lparr>xb = map (\<lambda>t. Some (t + 0.5 * dx)) (arange xmin xmax dx),
             yb = replicate N None, eb = replicate N None,
             nb = replicate N None, sb = replicate N None\<rparr>"
  have lb: "length ?bins = Suc N"
    using assms(1,2) by (simp add: length_arange arange_edges N_def)
  have ne: "?bins \<noteq> []" using lb by auto
  have run: "binning x y xmin xmax dx = for_each (binning_step x y ?bins) [0..<N] ?b0"
    using assms(1) lb ne by (simp add: binning_def Let_def)
  obtain b where b: "for_each (binning_step x y ?bins) [0..<N] ?b0 = Inr b"
    "xb b = xb ?b0" "length (yb b) = N" "length (eb b) = N" "length (nb b) = N"
    "length (sb b) = N" "\<And>i. i < N \<Longrightarrow> bin_entry x y ?bins ?b0 N i b"
    using binning_loop [of y x ?b0 N N ?bins] assms(3) by auto
  have edge: "?bins ! i = xmin + real i * dx" if "i \<le> N" for i
    using that lb nth_arange [where i = i and start = xmin and stop = "xmax + dx" and step = dx]
    by (simp add: length_arange)
  have "xb b ! i = Some (xmin + real i * dx + dx / 2)" if "i < N" for i
    using that b(2) by (simp add: nth_arange N_def length_arange)
  moreover have "(let v = bin_values x y (xmin + real i * dx) (xmin + real (i + 1) * dx) in
            if v = []
            then yb b ! i = None \<and> eb b ! i = None \<and> nb b ! i = None \<and> sb b ! i = None
            else yb b ! i = nanmedian v \<and> eb b ! i = nanstd v
               \<and> nb b ! i = Some (real (length v)) \<and> sb b ! i = np_sum v)" if "i < N" for i
    using b(7) [OF that] that edge [of i] edge [of "i + 1"]
    by (simp add: bin_entry_def Let_def)
  moreover have "length (xb b) = N" using b(2) by (simp add: length_arange N_def)
  ultimately show ?thesis using run b(1,3-6) by auto
qed

text \<open>
  C7, as the claim states it, fails on the error column: for the three values 0, 0, 3 in
  one bin the program returns their standard deviation \<open>sqrt 2\<close> (\<^verbatim>\<open>np.nanstd\<close>), where
  the MAD-based robust standard deviation of the same values is 0.
\<close>

theorem binning_std_counterexample:
  "binning [0.1, 0.2, 0.3] [Some 0, Some 0, Some 3] 0 1 1
     = Inr \<lparr>xb = [Some (1 / 2)], yb = [Some 0], eb = [Some (sqrt 2)],
             nb = [Some 3], sb = [Some 3]\<rparr>
   \<and> mad_std (bin_values [0.1, 0.2, 0.3] [Some 0, Some 0, Some 3] 0 1) = Some 0
   \<and> Some (sqrt 2) \<noteq> Some (0 :: real)"
  by (simp add: binning_def arange_def binning_step_def bin_values_def select_def
      mad_std_def nanmedian_def np_median_def nanstd_def np_sum_def upt_conv_Cons Let_def)

text \<open>
  The bins are closed on both sides, so they share their edges: an observation at the
  edge 1 of the bins [0, 1] and [1, 2] is counted in both.
\<close>

lemma binning_shared_edge:
  "binning [1] [Some 7] 0 2 1
     = Inr \<lparr>xb = [Some (1 / 2), Some (3 / 2)], yb = [Some 7, Some 7],
             eb = [Some 0, Some 0], nb = [Some 1, Some 1], sb = [Some 7, Some 7]\<rparr>"
  by (simp add: binning_def arange_def binning_step_def bin_values_def select_def
      nanmedian_def np_median_def nanstd_def np_sum_def upt_conv_Cons Let_def)

text \<open>
  \<open>binning\<close> is \<open>binning_np\<close> at the idealised library.
\<close>

lemma binning_ideal: "binning x y xmin xmax dx = binning_np ideal_numpy x y xmin xmax dx"
proof -
  have "binning_step x y bins = binning_np_step ideal_numpy x y bins" for bins
    by (intro ext) (simp add: binning_step_def binning_np_step_def ideal_numpy_def Let_def)
  then show ?thesis
    by (simp add: binning_def binning_np_def ideal_numpy_def Let_def)
qed

lemma binning_np_loop:
  assumes len: "length y = length x"
    and b0: "length (yb b0) = N" "length (eb b0) = N" "length (nb b0) = N" "length (sb b0) = N"
    and n: "n \<le> N"
  shows "\<exists>b. for_each (binning_np_step L x y bins) [0..<n] b0 = Inr b
    \<and> xb b = xb b0
    \<and> length (yb b) = N \<and> length (eb b) = N \<and> length (nb b) = N \<and> length (sb b) = N
    \<and> (\<forall>i<N. bin_np_entry L x y bins b0 n i b)"
  using n
proof (induction n)
  case 0
  show ?case using b0 by (simp add: bin_np_entry_def)
next
  case (Suc n)
  then obtain b where b: "for_each (binning_np_step L x y bins) [0..<n] b0 = Inr b"
    "xb b = xb b0" "length (yb b) = N" "length (eb b) = N" "length (nb b) = N"
    "length (sb b) = N" "\<And>i. i < N \<Longrightarrow> bin_np_entry L x y bins b0 n i b"
    by auto
  let ?v = "bin_values x y (bins ! n) (bins ! (n + 1))"
  show ?case
  proof (cases "?v = []")
    case True
    then have "for_each (binning_np_step L x y bins) [0..<Suc n] b0 = Inr b"
      using b(1) len by (simp add: for_each_append binning_np_step_def)
    moreover have "bin_np_entry L x y bins b0 (Suc n) i b" if "i < N" for i
      using b(7) [OF that] True
      by (cases "i = n") (auto simp: bin_np_entry_def Let_def less_Suc_eq)
    ultimately show ?thesis using b by auto
  next
    case False
    let ?b = "b\<lparr>yb := (yb b)[n := lib_nanmedian L ?v], eb := (eb b)[n := lib_nanstd L ?v],
                nb := (nb b)[n := Some (real (length ?v))], sb := (sb b)[n := lib_sum L ?v]\<rparr>"
    have "for_each (binning_np_step L x y bins) [0..<Suc n] b0 = Inr ?b"
      using b(1) len False by (simp add: for_each_append binning_np_step_def Let_def)
    moreover have "bin_np_entry L x y bins b0 (Suc n) i ?b" if "i < N" for i
      using b(7) [OF that] False that b(3-6) Suc.prems
      by (cases "i = n") (auto simp: bin_np_entry_def Let_def less_Suc_eq)
    ultimately show ?thesis using b by auto
  qed
qed

lemma binning_np_spec:
  assumes "dx \<noteq> 0" and "lib_arange L xmin (xmax + dx) dx \<noteq> []" and "length y = length x"
  shows "\<exists>b. binning_np L x y xmin xmax dx = Inr b
    \<and> xb b = map (\<lambda>t. Some (t + 0.5 * dx)) (lib_arange L xmin xmax dx)
    \<and> length (yb b) = length (lib_arange L xmin (xmax + dx) dx) - 1
    \<and> length (eb b) = length (lib_arange L xmin (xmax + dx) dx) - 1
    \<and> length (nb b) = length (lib_arange L xmin (xmax + dx) dx) - 1
    \<and> length (sb b) = length (lib_arange L xmin (xmax + dx) dx) - 1
    \<and> (\<forall>i < length (lib_arange L xmin (xmax + dx) dx) - 1.
         let v = bin_values x y (lib_arange L xmin (xmax + dx) dx ! i)
                   (lib_arange L xmin (xmax + dx) dx ! (i + 1)) in
         if v = []
         then yb b ! i = None \<and> eb b ! i = None \<and> nb b ! i = None \<and> sb b ! i = None
         else yb b ! i = lib_nanmedian L v \<and> eb b ! i = lib_nanstd L v
            \<and> nb b ! i = Some (real (length v)) \<and> sb b ! i = lib_sum L v)"
proof -
  let ?bins = "lib_arange L xmin (xmax + dx) dx"
  let ?N = "length ?bins - 1"
  let ?b0 = "\<lparr>xb = map (\<lambda>t. Some (t + 0.5 * dx)) (lib_arange L xmin xmax dx),
             yb = replicate ?N None, eb = replicate ?N None,
             nb = replicate ?N None, sb = replicate ?N None\<rparr>"
  have run: "binning_np L x y xmin xmax dx = for_each (binning_np_step L x y ?bins) [0..<?N] ?b0"
    using assms(1,2) by (simp add: binning_np_def Let_def)
  obtain b where b: "for_each (binning_np_step L x y ?bins) [0..<?N] ?b0 = Inr b"
    "xb b = xb ?b0"
    "length (yb b) = ?N" "length (eb b) = ?N" "length (nb b) = ?N"
    "length (sb b) = ?N" "\<And>i. i < ?N \<Longrightarrow> bin_np_entry L x y ?bins ?b0 ?N i b"
    using binning_np_loop [of y x ?b0 ?N ?N L ?bins] assms(3) by auto
  have "(let v = bin_values x y (?bins ! i) (?bins ! (i + 1)) in
         if v = []
         then yb b ! i = None \<and> eb b ! i = None \<and> nb b ! i = None \<and> sb b ! i = None
         else yb b ! i = lib_nanmedian L v \<and> eb b ! i = lib_nanstd L v
            \<and> nb b ! i = Some (real (length v)) \<and> sb b ! i = lib_sum L v)" if "i < ?N" for i
    using b(7) [OF that] that by (simp add: bin_np_entry_def Let_def)
  moreover have "xb b = map (\<lambda>t. Some (t + 0.5 * dx)) (lib_arange L xmin xmax dx)"
    using b(2) by simp
  ultimately show ?thesis using run b(1,3-6) by auto
qed

text \<open>
  C7 (amended): fixed binning takes its bin edges from
  \<^verbatim>\<open>np.arange(xmin, xmax + dx, dx)\<close>, as numpy computes them, and returns one entry for
  each pair of consecutive edges (one less than there are edges, whenever there is an
  edge, the bin width is not zero and the times and the values have one length). Bin
  \<open>i\<close> is the closed interval from edge \<open>i\<close> to edge \<open>i + 1\<close>, so that adjacent bins share
  their edge point; the bins are as wide and reach as far as the edges that numpy
  computes, and need not cover \<open>[xmin, xmax]\<close> to its end. For a bin that contains
  observations the function returns \<^verbatim>\<open>np.nanmedian\<close> of the contained values, their
  ordinary standard deviation \<^verbatim>\<open>np.nanstd\<close> (not the MAD-based robust one), their
  number and their sum \<^verbatim>\<open>np.sum\<close>; for an empty bin the four values are missing. The
  bin centres are \<^verbatim>\<open>np.arange(xmin, xmax, dx) + dx / 2\<close>, a second call of
  \<^verbatim>\<open>np.arange\<close>.
\<close>

theorem binning_np_entries:
  assumes "dx \<noteq> 0" and "lib_arange L xmin (xmax + dx) dx \<noteq> []" and "length y = length x"
  shows "\<exists>b. binning_np L x y xmin xmax dx = Inr b
    \<and> xb b = map (\<lambda>t. Some (t + 0.5 * dx)) (lib_arange L xmin xmax dx)
    \<and> length (yb b) = length (lib_arange L xmin (xmax + dx) dx) - 1
    \<and> length (eb b) = length (lib_arange L xmin (xmax + dx) dx) - 1
    \<and> length (nb b) = length (lib_arange L xmin (xmax + dx) dx) - 1
    \<and> length (sb b) = length (lib_arange L xmin (xmax + dx) dx) - 1
    \<and> (\<forall>i < length (lib_arange L xmin (xmax + dx) dx) - 1.
         let v = bin_values x y (lib_arange L xmin (xmax + dx) dx ! i)
                   (lib_arange L xmin (xmax + dx) dx ! (i + 1)) in
         if v = []
         then yb b ! i = None \<and> eb b ! i = None \<and> nb b ! i = None \<and> sb b ! i = None
         else yb b ! i = lib_nanmedian L v \<and> eb b ! i = lib_nanstd L v
            \<and> nb b ! i = Some (real (length v)) \<and> sb b ! i = lib_sum L v)"
  using binning_np_spec [OF assms] .

theorem binning_np_entries_witness:
  "lib_arange ideal_numpy 0 (2 + 1) 1 = [0, 1, 2]
   \<and> (\<exists>b. binning_np ideal_numpy [0.5, 1.5, 1.6] [Some 4, Some 1, Some 3] 0 2 1 = Inr b
      \<and> xb b = [Some 0.5, Some 1.5]
      \<and> length (yb b) = 2
      \<and> yb b ! 1 = nanmedian [Some 1, Some 3]
      \<and> eb b ! 1 = nanstd [Some 1, Some 3]
      \<and> nb b ! 1 = Some 2
      \<and> sb b ! 1 = np_sum [Some 1, Some 3])"
proof -
  have bins: "lib_arange ideal_numpy 0 (2 + 1) 1 = [0, 1, 2]"
    by (simp add: ideal_numpy_def arange_def upt_conv_Cons)
  have centres: "map (\<lambda>t. Some (t + 0.5 * 1)) (lib_arange ideal_numpy 0 2 1)
      = [Some 0.5, Some (1.5 :: real)]"
    by (simp add: ideal_numpy_def arange_def upt_conv_Cons)
  have v: "bin_values [0.5, 1.5, 1.6] [Some 4, Some 1, Some 3] 1 2 = [Some 1, Some (3 :: real)]"
    by (simp add: bin_values_def select_def)
  have dx: "(1 :: real) \<noteq> 0" by simp
  have ne: "lib_arange ideal_numpy 0 (2 + 1) 1 \<noteq> []" unfolding bins by simp
  have len: "length [Some 4, Some 1, Some (3 :: real)] = length [0.5, 1.5, 1.6 :: real]" by simp
  note th = binning_np_entries [OF dx ne len]
  then obtain b where b: "binning_np ideal_numpy [0.5, 1.5, 1.6] [Some 4, Some 1, Some 3] 0 2 1 = Inr b"
    and cx: "xb b = map (\<lambda>t. Some (t + 0.5 * 1)) (lib_arange ideal_numpy 0 2 1)"
    and ly: "length (yb b) = length (lib_arange ideal_numpy 0 (2 + 1) 1) - 1"
    and ent: "\<forall>i < length (lib_arange ideal_numpy 0 (2 + 1) 1) - 1.
       let v = bin_values [0.5, 1.5, 1.6] [Some 4, Some 1, Some 3]
                  (lib_arange ideal_numpy 0 (2 + 1) 1 ! i)
                  (lib_arange ideal_numpy 0 (2 + 1) 1 ! (i + 1)) in
        if v = []
        then yb b ! i = None \<and> eb b ! i = None \<and> nb b ! i = None \<and> sb b ! i = None
        else yb b ! i = lib_nanmedian ideal_numpy v \<and> eb b ! i = lib_nanstd ideal_numpy v
           \<and> nb b ! i = Some (real (length v)) \<and> sb b ! i = lib_sum ideal_numpy v"
    by blast
  have one: "(1 :: nat) < length (lib_arange ideal_numpy 0 (2 + 1) 1) - 1"
    unfolding bins by simp
  have "let v = bin_values [0.5, 1.5, 1.6] [Some 4, Some 1, Some 3]
                  (lib_arange ideal_numpy 0 (2 + 1) 1 ! 1)
                  (lib_arange ideal_numpy 0 (2 + 1) 1 ! (1 + 1)) in
        if v = []
        then yb b ! 1 = None \<and> eb b ! 1 = None \<and> nb b ! 1 = None \<and> sb b ! 1 = None
        else yb b ! 1 = lib_nanmedian ideal_numpy v \<and> eb b ! 1 = lib_nanstd ideal_numpy v
           \<and> nb b ! 1 = Some (real (length v)) \<and> sb b ! 1 = lib_sum ideal_numpy v"
    using ent one by blast
  then have "yb b ! 1 = nanmedian [Some 1, Some 3]
    \<and> eb b ! 1 = nanstd [Some 1, Some 3]
    \<and> nb b ! 1 = Some 2 \<and> sb b ! 1 = np_sum [Some 1, Some 3]"
    using v unfolding bins by (simp add: Let_def ideal_numpy_def)
  moreover have "length (yb b) = 2" using ly unfolding bins by simp
  moreover have "xb b = [Some 0.5, Some 1.5]" using cx centres by simp
  ultimately show ?thesis using b bins by blast
qed

subsection \<open>Overlapping-window binning\<close>




text \<open>
  The steps of the idealised \<open>arange\<close> lie in \<open>[start, stop)\<close>, and the next multiple
  of the step is beyond it.
\<close>

lemma arange_in_range:
  assumes "0 < dx" and "i < nat \<lceil>(stop - start) / dx\<rceil>"
  shows "start \<le> start + real i * dx" and "start + real i * dx < stop"
proof -
  show "start \<le> start + real i * dx" using assms(1) by simp
  have "int i < \<lceil>(stop - start) / dx\<rceil>" using assms(2) by simp
  then have "real i < (stop - start) / dx" by (simp add: less_ceiling_iff)
  then show "start + real i * dx < stop" using assms(1) by (simp add: field_simps)
qed

lemma arange_covers:
  assumes "0 < dx" and "start < stop"
  shows "0 < nat \<lceil>(stop - start) / dx\<rceil>"
    and "stop \<le> start + real (nat \<lceil>(stop - start) / dx\<rceil>) * dx"
proof -
  have pos: "0 < (stop - start) / dx" using assms by simp
  then have c: "0 < \<lceil>(stop - start) / dx\<rceil>" by (simp add: ceiling_less_iff less_ceiling_iff)
  then show "0 < nat \<lceil>(stop - start) / dx\<rceil>" by simp
  have "(stop - start) / dx \<le> real_of_int \<lceil>(stop - start) / dx\<rceil>" by (rule le_of_int_ceiling)
  also have "\<dots> = real (nat \<lceil>(stop - start) / dx\<rceil>)" using c by simp
  finally show "stop \<le> start + real (nat \<lceil>(stop - start) / dx\<rceil>) * dx"
    using assms(1) by (simp add: field_simps)
qed

text \<open>
  \<open>binning2\<close> is \<open>binning2_np\<close> at the idealised \<open>arange\<close>, whose steps are the
  multiples \<open>start + i dx\<close> below \<open>stop\<close> (\<open>arange_in_range\<close>, \<open>arange_covers\<close>).
\<close>

lemma binning2_ideal:
  "binning2 np_interp x y xmin xmax dx window interp median weight
     = binning2_np np_interp arange x y xmin xmax dx window interp median weight"
  by (simp add: binning2_def binning2_np_def)




subsection \<open>Effective sample size of the monthly series\<close>

lemma n_eff_value:
  "n_eff hb = (if length (finite_values hb) = 0 then 1
               else real (length (finite_values hb)) / 6)"
  by (simp add: n_eff_def Let_def)

text \<open>
  C9 does not hold of the program, whose comment announces a scale of two months where
  the formula divides by six: a mission with six populated monthly bins gets
  \<open>n_eff = 6 * (1/12) / (2 * (3/12)) = 1\<close>, not \<open>6 / 2 = 3\<close>, so its binning error is not
  reduced at all. With a formal error of 1 for each observation the total error of each
  bin is \<open>sqrt (1/2 + 1/2) = 1\<close>; with \<open>n_eff = 3\<close> it would be \<open>sqrt (1/2 + 1/6)\<close>.
\<close>

theorem bin_mission_n_eff_six_bins:
  "bin_mission np_interp [1 / 24, 3 / 24, 5 / 24, 7 / 24, 9 / 24, 11 / 24]
       [Some 1, Some 1, Some 1, Some 1, Some 1, Some 1] [1, 1, 1, 1, 1, 1]
       [Some 1, Some 1, Some 1, Some 1, Some 1, Some 1] 0 (1 / 2) (1 / 12) (1 / 12) None
     = Inr \<lparr>tbi = [[Some (1 / 24), Some (1 / 8), Some (5 / 24), Some (7 / 24),
                     Some (3 / 8), Some (11 / 24)]],
             hbi = [[Some 1, Some 1, Some 1, Some 1, Some 1, Some 1]],
             ebi = [[Some 1, Some 1, Some 1, Some 1, Some 1, Some 1]],
             nbi = [[Some 1, Some 1, Some 1, Some 1, Some 1, Some 1]],
             mbi = [[1, 1, 1, 1, 1, 1]]\<rparr>
   \<and> n_eff [Some 1, Some 1, Some 1, Some 1, Some 1, Some 1] = 1
   \<and> n_eff [Some 1, Some 1, Some 1, Some 1, Some 1, Some 1] \<noteq> 6 / 2"
  by (simp add: bin_mission_def bin_mission_step_def bin_one_mission_def select_def
      assign_def np_mean_def isnan_def n_eff_value binning2_def span_def arange_def
      binning2_step_def window_idx_def upt_conv_Cons Let_def nansum_def mad_std_def
      nanmedian_def np_median_def np_sum_def replicate_numeral power_divide)

subsection \<open>Robust solver\<close>

lemma length_select_finite:
  "length (select (map (\<lambda>v. \<not> isnan v) y) y) = length (finite_values y)"
  by (induction y rule: finite_values.induct) (simp_all add: select_def isnan_def)

text \<open>
  C2 does not hold of the program: when the valid observations are at most the number
  of unknowns plus one at the first pass of the loop, the \<^verbatim>\<open>else\<close> branch leaves the loop
  before anything was assigned to \<open>x\<close>, and \<^verbatim>\<open>return x\<close> raises UnboundLocalError (as it
  does when the loop has no pass at all, \<open>n_iter < 0\<close>).
\<close>

theorem lsq_solve_underdetermined_raises:
  assumes "length (rows X) = length y"
    and "length (finite_values y) \<le> ncols X + 1"
  shows "lsq_solve lstsq X y n_iter n_sigma threshold = Inl UnboundLocalError"
  using assms
  by (simp add: lsq_solve_def length_select_finite return_x_def Let_def)

theorem lsq_solve_underdetermined_raises_witness:
  "length (rows \<lparr>ncols = 1, rows = [[1], [1]]\<rparr>) = length [Some 0, Some (0 :: real)]
   \<and> length (finite_values [Some 0, Some 0]) \<le> ncols \<lparr>ncols = 1, rows = [[1 :: real], [1]]\<rparr> + 1
   \<and> lsq_solve (\<lambda>X y. [0]) \<lparr>ncols = 1, rows = [[1], [1]]\<rparr> [Some 0, Some 0] 5 5 10
       = Inl UnboundLocalError"
  using lsq_solve_underdetermined_raises [of "\<lparr>ncols = 1, rows = [[1], [1]]\<rparr>"
      "[Some 0, Some 0]" "\<lambda>X y. [0]" 5 5 10]
  by simp

text \<open>
  When the observations become too few only after a pass has rejected outliers, the
  solver returns the coefficients of the last solve: a fit, not a mark of failure. Here
  the solve always gives the coefficient 0; of the residuals 0, 0, 50 the last is
  rejected, two observations are left for one unknown, and \<open>[0]\<close> is returned.
\<close>

lemma lsq_solve_returns_last_fit:
  "lsq_solve (\<lambda>X y. [0]) \<lparr>ncols = 1, rows = [[1], [1], [1]]\<rparr> [Some 0, Some 0, Some 50] 5 5 10
     = Inr [0]"
  by (simp add: lsq_solve_def return_x_def Let_def select_def isnan_def dot_def assign_def
      mad_std_def nanmedian_def np_median_def)

subsection \<open>Residual cross-calibration\<close>

lemmas calibrate_eval = cross_calibrate_def calibrate_step_def overlap_diff_def
  group_in_window_def rule_diff_def overlap_stats_def overlap_to_def overlap_mo_def
  binning_def arange_def binning_step_def bin_values_def select_def assign_def isnan_def
  nanmedian_def np_median_def nanmean_def nanstd_def np_sum_def upt_conv_Cons Let_def
  replicate_numeral

lemma assign_map:
  "assign (map P ms) v (map f ms) = map (\<lambda>m. if P m then v else f m) ms"
  by (induction ms) (simp_all add: assign_def)

lemma cross_calibrate_chain:
  assumes len: "length mi = length ti" "length dh = length ti" "length hi = length ti"
  shows "cross_calibrate ti hi dh mi a =
     Inr (map (\<lambda>m. if m = Some 3
                     then overlap_diff a ti dh mi 0 + overlap_diff a ti dh mi 1
                          + overlap_diff a ti dh mi 2
                   else if m = Some 2
                     then overlap_diff a ti dh mi 0 + overlap_diff a ti dh mi 1
                   else if m = Some 1 then overlap_diff a ti dh mi 0
                   else 0) mi,
          (if overlap_diff a ti dh mi 0 \<noteq> 0 then 1 else 0)
          + (if overlap_diff a ti dh mi 1 \<noteq> 0 then 1 else 0)
          + (if overlap_diff a ti dh mi 2 \<noteq> 0 then 1 else 0))"
proof -
  have init: "replicate (length hi) (0 :: real) = map (\<lambda>m. 0) mi"
    using len by (simp add: map_replicate_const)
  have rng: "[0..<length overlap_to] = [0, 1, 2]"
    by (simp add: overlap_to_def upt_conv_Cons)
  show ?thesis
    unfolding cross_calibrate_def rng init
    using len
    by (simp add: calibrate_step_def assign_map overlap_mo_def Let_def cong: if_cong)
qed

text \<open>
  C3: when the three rules, in their order, give the offsets +2, +3 and -1, the
  corrections of the observations of the groups 0, 1, 2 and 3 are 0, 2, 5 and 4, the
  cumulative sums of the offsets, and the counter is 3. (An observation with no group
  keeps the correction 0.)
\<close>

theorem cross_calibrate_cumulative:
  assumes "length mi = length ti" and "length dh = length ti" and "length hi = length ti"
    and "overlap_diff a ti dh mi 0 = 2"
    and "overlap_diff a ti dh mi 1 = 3"
    and "overlap_diff a ti dh mi 2 = - 1"
  shows "cross_calibrate ti hi dh mi a =
     Inr (map (\<lambda>m. if m = Some 0 then 0 else if m = Some 1 then 2
                   else if m = Some 2 then 5 else if m = Some 3 then 4 else 0) mi, 3)"
  unfolding cross_calibrate_chain [OF assms(1-3)] assms(4-6)
  by auto

theorem cross_calibrate_cumulative_witness:
  "overlap_diff 0 [1996, 19963 / 10, 1996, 19963 / 10, 2003, 20033 / 10, 2003, 20033 / 10, 20105 / 10, 20108 / 10, 20105 / 10, 20108 / 10]
      [Some 2, Some 2, Some 0, Some 0, Some 3, Some 3, Some 0, Some 0, Some (- 1), Some (- 1), Some 0, Some 0]
      [Some 1, Some 1, Some 0, Some 0, Some 2, Some 2, Some 1, Some 1, Some 3, Some 3, Some 2, Some 2] 0 = 2
   \<and> overlap_diff 0 [1996, 19963 / 10, 1996, 19963 / 10, 2003, 20033 / 10, 2003, 20033 / 10, 20105 / 10, 20108 / 10, 20105 / 10, 20108 / 10]
      [Some 2, Some 2, Some 0, Some 0, Some 3, Some 3, Some 0, Some 0, Some (- 1), Some (- 1), Some 0, Some 0]
      [Some 1, Some 1, Some 0, Some 0, Some 2, Some 2, Some 1, Some 1, Some 3, Some 3, Some 2, Some 2] 1 = 3
   \<and> overlap_diff 0 [1996, 19963 / 10, 1996, 19963 / 10, 2003, 20033 / 10, 2003, 20033 / 10, 20105 / 10, 20108 / 10, 20105 / 10, 20108 / 10]
      [Some 2, Some 2, Some 0, Some 0, Some 3, Some 3, Some 0, Some 0, Some (- 1), Some (- 1), Some 0, Some 0]
      [Some 1, Some 1, Some 0, Some 0, Some 2, Some 2, Some 1, Some 1, Some 3, Some 3, Some 2, Some 2] 2 = - 1
   \<and> cross_calibrate [1996, 19963 / 10, 1996, 19963 / 10, 2003, 20033 / 10, 2003, 20033 / 10, 20105 / 10, 20108 / 10, 20105 / 10, 20108 / 10]
      [Some 2, Some 2, Some 0, Some 0, Some 3, Some 3, Some 0, Some 0, Some (- 1), Some (- 1), Some 0, Some 0]
      [Some 2, Some 2, Some 0, Some 0, Some 3, Some 3, Some 0, Some 0, Some (- 1), Some (- 1), Some 0, Some 0]
      [Some 1, Some 1, Some 0, Some 0, Some 2, Some 2, Some 1, Some 1, Some 3, Some 3, Some 2, Some 2] 0
     = Inr ([2, 2, 0, 0, 5, 5, 2, 2, 4, 4, 5, 5], 3)"
proof -
  have d0: "overlap_diff 0 [1996, 19963 / 10, 1996, 19963 / 10, 2003, 20033 / 10, 2003, 20033 / 10, 20105 / 10, 20108 / 10, 20105 / 10, 20108 / 10]
      [Some 2, Some 2, Some 0, Some 0, Some 3, Some 3, Some 0, Some 0, Some (- 1), Some (- 1), Some 0, Some 0]
      [Some 1, Some 1, Some 0, Some 0, Some 2, Some 2, Some 1, Some 1, Some 3, Some 3, Some 2, Some 2] 0 = 2"
    by (simp add: calibrate_eval)
  have d1: "overlap_diff 0 [1996, 19963 / 10, 1996, 19963 / 10, 2003, 20033 / 10, 2003, 20033 / 10, 20105 / 10, 20108 / 10, 20105 / 10, 20108 / 10]
      [Some 2, Some 2, Some 0, Some 0, Some 3, Some 3, Some 0, Some 0, Some (- 1), Some (- 1), Some 0, Some 0]
      [Some 1, Some 1, Some 0, Some 0, Some 2, Some 2, Some 1, Some 1, Some 3, Some 3, Some 2, Some 2] 1 = 3"
    by (simp add: calibrate_eval)
  have d2: "overlap_diff 0 [1996, 19963 / 10, 1996, 19963 / 10, 2003, 20033 / 10, 2003, 20033 / 10, 20105 / 10, 20108 / 10, 20105 / 10, 20108 / 10]
      [Some 2, Some 2, Some 0, Some 0, Some 3, Some 3, Some 0, Some 0, Some (- 1), Some (- 1), Some 0, Some 0]
      [Some 1, Some 1, Some 0, Some 0, Some 2, Some 2, Some 1, Some 1, Some 3, Some 3, Some 2, Some 2] 2 = - 1"
    by (simp add: calibrate_eval)
  show ?thesis
    using cross_calibrate_cumulative [OF _ _ _ d0 d1 d2, of "[Some 2, Some 2, Some 0, Some 0, Some 3, Some 3, Some 0, Some 0, Some (- 1), Some (- 1), Some 0, Some 0]"] d0 d1 d2
    by simp
qed

text \<open>
  The gate on the number of populated bins does fire for the first group of a rule: with
  at most one populated bin there, the offset of the rule is zero.
\<close>

lemma rule_diff_first_group_gated:
  assumes "overlap_stats t0 h0 t1 h1 = Some ov"
    and "length (finite_values (o_b0 ov)) \<le> 1"
  shows "rule_diff a i t0 h0 t1 h1 = 0"
proof -
  have "o_n0 ov = length (finite_values (o_b0 ov))"
    using assms(1)
    by (auto simp: overlap_stats_def Let_def split: if_splits sum.splits)
  then show ?thesis
    using assms by (simp add: rule_diff_def Let_def split: option.splits)
qed

text \<open>
  C4 does not hold of the program for the second group of a rule. In the window of the
  first rule, group 1 has observations in two months (value 2) and group 0 a single
  observation (value 0): the binned series of group 0 has exactly one populated bin.
  The count \<open>n1\<close> is taken through the mask of \<open>b0\<close>, so it is 3 like \<open>n0\<close>; the gate
  does not fire, the correction of group 1 is 2 and the counter is 1.
\<close>

theorem cross_calibrate_second_group_one_bin:
  "(\<exists>ov. overlap_stats [1996, 19963 / 10] [Some 2, Some 2] [19963 / 10] [Some 0] = Some ov
      \<and> o_b0 ov = [Some 2, Some 2, None, None, Some 2, None]
      \<and> o_b1 ov = [None, None, None, None, Some 0, None]
      \<and> length (finite_values (o_b1 ov)) = 1
      \<and> o_n0 ov = 3 \<and> o_n1 ov = 3 \<and> o_diff ov = Some 2)
   \<and> group_in_window [1996, 19963 / 10, 19963 / 10] [1996, 19963 / 10, 19963 / 10]
        [Some 1, Some 1, Some 0] 0 0 = [19963 / 10]
   \<and> group_in_window [1996, 19963 / 10, 19963 / 10] [Some 2, Some 2, Some (0 :: real)]
        [Some 1, Some 1, Some 0] 0 0 = [Some 0]
   \<and> cross_calibrate [1996, 19963 / 10, 19963 / 10] [Some 2, Some 2, Some 0]
        [Some 2, Some 2, Some 0] [Some 1, Some 1, Some 0] 0
      = Inr ([2, 2, 0], 1)"
  by (simp add: calibrate_eval)

subsection \<open>Seasonal normalization\<close>

lemma length_put: "length (put msk vs xs) = length xs"
  by (induction msk vs xs rule: put.induct) simp_all

lemma put_unchanged:
  assumes "length h = length ms" and "k < length ms" and "\<not> P (ms ! k)"
  shows "put (map P ms) vs h ! k = h ! k"
  using assms
proof (induction ms arbitrary: vs h k)
  case Nil
  then show ?case by simp
next
  case (Cons m ms)
  then obtain x h' where h: "h = x # h'" "length h' = length ms"
    by (cases h) auto
  show ?case
  proof (cases k)
    case 0
    then have "\<not> P m" using Cons.prems(3) by simp
    then show ?thesis using 0 h by simp
  next
    case (Suc j)
    then have j: "j < length ms" "\<not> P (ms ! j)"
      using Cons.prems(2,3) by simp_all
    show ?thesis
    proof (cases "P m")
      case False
      then show ?thesis using Suc h Cons.IH [OF h(2) j] by simp
    next
      case True
      show ?thesis
      proof (cases "vs = []")
        case True
        then show ?thesis using \<open>P m\<close> h by simp
      next
        case False
        then obtain v vs' where "vs = v # vs'" by (cases vs) auto
        then show ?thesis using \<open>P m\<close> Suc h Cons.IH [OF h(2) j] by simp
      qed
    qed
  qed
qed

lemma amplitude_nonneg: "amplitude c = Some s \<Longrightarrow> 0 \<le> s"
  by (cases "fst c"; cases "snd c") (auto simp: amplitude_def)

lemma weaker_ratio:
  assumes "fl_cmp (<) a_sat a_ref" and "a_sat = Some s" and "0 \<le> s"
  shows "ratio_gt_one a_ref a_sat"
proof -
  obtain r where r: "a_ref = Some r" "s < r"
    using assms(1,2) by (cases a_ref) simp_all
  show ?thesis
  proof (cases "s = 0")
    case True
    then show ?thesis using r assms(2) by (simp add: ratio_gt_one_def)
  next
    case False
    then have "0 < s" using assms(3) by simp
    then have "1 < r / s" using r(2) by simp
    then show ?thesis using r assms(2) False by (simp add: ratio_gt_one_def)
  qed
qed

lemma seasonal_step_keeps:
  assumes "seasonal_step ref_coef sat_coef xs ys ts hs ms m h = Inr h'"
    and "length h = length ms" and "k < length ms"
    and "weaker_or_reference ref_coef sat_coef xs ys ms (ms ! k)"
  shows "h' ! k = h ! k" and "length h' = length ms"
proof -
  have "h' ! k = h ! k \<and> length h' = length ms"
  proof (cases "m < 3")
    case True
    then show ?thesis using assms(1,2) by (simp add: seasonal_step_def)
  next
    case False
    show ?thesis
    proof (cases "sat_coef m")
      case None
      then show ?thesis using assms(1) False
        by (simp add: seasonal_step_def Let_def split: if_splits)
    next
      case (Some layer)
      let ?i_s = "map (\<lambda>v. v = m) ms"
      let ?xs_i = "np_mean_real (select ?i_s xs)"
      let ?ys_i = "np_mean_real (select ?i_s ys)"
      let ?a_ref = "amplitude (ref_coef ?xs_i ?ys_i)"
      let ?a_sat = "amplitude (layer ?xs_i ?ys_i)"
      show ?thesis
      proof (cases "ratio_gt_one ?a_ref ?a_sat")
        case True
        then show ?thesis using assms(1,2) False Some
          by (simp add: seasonal_step_def Let_def split: if_splits)
      next
        case nogt: False
        have "ms ! k \<noteq> m"
        proof
          assume eq: "ms ! k = m"
          then have "fl_cmp (<) ?a_sat ?a_ref"
            using assms(4) False Some
            by (simp add: weaker_or_reference_def mission_amplitudes_def Let_def)
          moreover then obtain s where s: "?a_sat = Some s"
            by (cases ?a_sat) simp_all
          moreover have "0 \<le> s" using s by (rule amplitude_nonneg)
          ultimately have "ratio_gt_one ?a_ref ?a_sat" by (rule weaker_ratio)
          with nogt show False by simp
        qed
        then show ?thesis using assms(1,2,3) False Some nogt
          by (auto simp: seasonal_step_def Let_def length_put put_unchanged split: if_splits)
      qed
    qed
  qed
  then show "h' ! k = h ! k" and "length h' = length ms" by simp_all
qed

lemma seasonal_step_returns:
  assumes "length hs = length ms" and "length ts = length ms"
    and "length xs = length ms" and "length ys = length ms"
    and "3 \<le> m \<longrightarrow> sat_coef m \<noteq> None"
  shows "\<exists>h'. seasonal_step ref_coef sat_coef xs ys ts hs ms m h = Inr h'"
  using assms by (cases "sat_coef m") (auto simp: seasonal_step_def Let_def)

lemma seasonal_loop_keeps:
  assumes "length hs = length ms" and "length ts = length ms"
    and "length xs = length ms" and "length ys = length ms"
    and "\<forall>m \<in> set mis. 3 \<le> m \<longrightarrow> sat_coef m \<noteq> None"
    and "length h = length ms"
  shows "\<exists>h'. for_each (seasonal_step ref_coef sat_coef xs ys ts hs ms) mis h = Inr h'
    \<and> length h' = length ms
    \<and> (\<forall>k < length ms. weaker_or_reference ref_coef sat_coef xs ys ms (ms ! k)
          \<longrightarrow> h' ! k = h ! k)"
  using assms(5,6)
proof (induction mis arbitrary: h)
  case Nil
  then show ?case by simp
next
  case (Cons m mis)
  obtain h1 where h1: "seasonal_step ref_coef sat_coef xs ys ts hs ms m h = Inr h1"
    using seasonal_step_returns [OF assms(1-4), of m sat_coef ref_coef h] Cons.prems(1)
    by auto
  have len1: "length h1 = length ms"
    using h1 Cons.prems(2) assms(1)
    by (auto simp: seasonal_step_def Let_def length_put split: if_splits option.splits)
  have keep1: "h1 ! k = h ! k"
    if "k < length ms" "weaker_or_reference ref_coef sat_coef xs ys ms (ms ! k)" for k
    using seasonal_step_keeps(1) [OF h1 Cons.prems(2) that] .
  obtain h' where h': "for_each (seasonal_step ref_coef sat_coef xs ys ts hs ms) mis h1 = Inr h'"
    "length h' = length ms"
    "\<And>k. k < length ms \<Longrightarrow> weaker_or_reference ref_coef sat_coef xs ys ms (ms ! k)
       \<Longrightarrow> h' ! k = h1 ! k"
    using Cons.IH [of h1] Cons.prems(1) len1 by auto
  show ?case
    using h1 h' keep1 by auto
qed

text \<open>
  C6: for every neighbourhood (arrays of one length, rasters with a layer for each of its
  missions from 3 on), seasonal normalization returns, and the correction of an
  observation is exactly zero whenever its mission id is below 3, and whenever the
  interpolated amplitude of its mission is below the reference amplitude: a seasonal
  signal weaker than the reference is never changed.
\<close>

theorem normalize_seasonal_zero:
  assumes "length hs = length ms" and "length ts = length ms"
    and "length xs = length ms" and "length ys = length ms"
    and "\<forall>m \<in> set ms. 3 \<le> m \<longrightarrow> sat_coef m \<noteq> None"
  shows "\<exists>h_out. normalize_seasonal ref_coef sat_coef xs ys ts hs ms = Inr h_out
    \<and> length h_out = length ms
    \<and> (\<forall>k < length ms.
          (ms ! k < 3 \<longrightarrow> h_out ! k = Some 0)
        \<and> (\<forall>a_ref a_sat.
              mission_amplitudes ref_coef sat_coef xs ys ms (ms ! k) = Some (Some a_ref, Some a_sat)
              \<and> a_sat < a_ref \<longrightarrow> h_out ! k = Some 0))"
proof -
  have layers: "\<forall>m \<in> set (sort (remdups ms)). 3 \<le> m \<longrightarrow> sat_coef m \<noteq> None"
    using assms(5) by simp
  obtain h_out where h: "normalize_seasonal ref_coef sat_coef xs ys ts hs ms = Inr h_out"
    "length h_out = length ms"
    "\<And>k. k < length ms \<Longrightarrow> weaker_or_reference ref_coef sat_coef xs ys ms (ms ! k)
       \<Longrightarrow> h_out ! k = replicate (length hs) (Some 0) ! k"
    using seasonal_loop_keeps [OF assms(1-4) layers, of "replicate (length hs) (Some 0)" ref_coef]
      assms(1)
    unfolding normalize_seasonal_def by auto
  have zero: "h_out ! k = Some 0"
    if "k < length ms" "weaker_or_reference ref_coef sat_coef xs ys ms (ms ! k)" for k
    using h(3) [OF that] that(1) assms(1) by simp
  have "(ms ! k < 3 \<longrightarrow> h_out ! k = Some 0)
        \<and> (\<forall>a_ref a_sat.
              mission_amplitudes ref_coef sat_coef xs ys ms (ms ! k) = Some (Some a_ref, Some a_sat)
              \<and> a_sat < a_ref \<longrightarrow> h_out ! k = Some 0)" if "k < length ms" for k
    using zero [OF that] by (auto simp: weaker_or_reference_def)
  then show ?thesis using h(1,2) by blast
qed

lemmas seasonal_eval = normalize_seasonal_def seasonal_step_def mission_amplitudes_def
  amplitude_def ratio_gt_one_def one_minus_ratio_def np_mean_real_def select_def Let_def

theorem normalize_seasonal_zero_witness:
  "mission_amplitudes (\<lambda>x y. (Some 0, Some 2)) (\<lambda>m. Some (\<lambda>x y. (Some 0, Some 1)))
      [0, 0] [0, 0] [1, 4] 4 = Some (Some 2, Some 1)
   \<and> (\<exists>h_out. normalize_seasonal (\<lambda>x y. (Some 0, Some 2)) (\<lambda>m. Some (\<lambda>x y. (Some 0, Some 1)))
        [0, 0] [0, 0] [2000, 2000.5] [Some 1, Some 2] [1, 4] = Inr h_out
      \<and> h_out ! 0 = Some 0 \<and> h_out ! 1 = Some 0)"
proof -
  have amp: "mission_amplitudes (\<lambda>x y. (Some 0, Some 2)) (\<lambda>m. Some (\<lambda>x y. (Some 0, Some 1)))
      [0, 0] [0, 0] [1, 4] 4 = Some (Some 2, Some 1)"
    by (simp add: seasonal_eval)
  obtain h_out where h: "normalize_seasonal (\<lambda>x y. (Some 0, Some 2))
        (\<lambda>m. Some (\<lambda>x y. (Some 0, Some 1)))
        [0, 0] [0, 0] [2000, 2000.5] [Some 1, Some 2] [1, 4] = Inr h_out"
    "\<And>k. k < 2 \<Longrightarrow> ([1, 4 :: int] ! k < 3 \<longrightarrow> h_out ! k = Some 0)
        \<and> (\<forall>a_ref a_sat.
              mission_amplitudes (\<lambda>x y. (Some 0, Some 2)) (\<lambda>m. Some (\<lambda>x y. (Some 0, Some 1)))
                [0, 0] [0, 0] [1, 4] ([1, 4] ! k) = Some (Some a_ref, Some a_sat)
              \<and> a_sat < a_ref \<longrightarrow> h_out ! k = Some 0)"
    using normalize_seasonal_zero [of "[Some 1, Some 2]" "[1, 4]" "[2000, 2000.5]" "[0, 0]" "[0, 0]"
        "\<lambda>m. Some (\<lambda>x y. (Some 0, Some 1))" "\<lambda>x y. (Some 0, Some 2)"]
    by auto
  have "h_out ! 0 = Some 0" using h(2) [of 0] by simp
  moreover have "h_out ! 1 = Some 0" using h(2) [of 1] amp by simp
  ultimately show ?thesis using amp h(1) by blast
qed

text \<open>
  A mission with a stronger signal than the reference is corrected: with the amplitudes
  1 and 2 the factor is 1/2, and the model value 2 at time 0 gives the correction 1.
\<close>

lemma normalize_seasonal_stronger:
  "normalize_seasonal (\<lambda>x y. (Some 0, Some 1)) (\<lambda>m. Some (\<lambda>x y. (Some 0, Some 2)))
        [0, 0] [0, 0] [0, 0] [Some 1, Some 2] [1, 4] = Inr [Some 0, Some 1]"
  by (simp add: seasonal_eval)

subsection \<open>The coverage gates\<close>

lemma coverage_returns:
  "\<exists>c b. coverage nlim dtlim nmlim time mode = Inr (c, b)
     \<and> nobs c = int (length time)
     \<and> dt c = (if time = [] then 0 else Max (set time) - Min (set time))
     \<and> 0 \<le> npct c"
proof (cases "time = []")
  case True
  then show ?thesis by (auto simp: coverage_def)
next
  case False
  have "Min (set time) \<le> Max (set time)"
    using False by simp
  then obtain b where "binning time (map Some time) (Min (set time)) (Max (set time)) (1 / 12) = Inr b"
    using binning_spec [of "1 / 12" "Min (set time)" "Max (set time)" "map Some time" time]
    by auto
  then show ?thesis using False
    by (auto simp: coverage_def Let_def)
qed

lemma main_cell_gate:
  "main_cell rest nlim dtlim nmlim dx dy xc yc cap =
    (if nlim \<le> int (length cap)
        \<and> dtlim \<le> (if cap = [] then 0
                      else Max (set (map otime cap)) - Min (set (map otime cap)))
     then if length (footprint dx dy xc yc cap) = 5 then Inr None
          else rest cap (footprint dx dy xc yc cap)
     else Inr None)"
proof -
  obtain c b where c: "coverage nlim dtlim nmlim (map otime cap) (map omode cap) = Inr (c, b)"
    "nobs c = int (length cap)"
    "dt c = (if cap = [] then 0 else Max (set (map otime cap)) - Min (set (map otime cap)))"
    "0 \<le> npct c"
    using coverage_returns [of nlim dtlim nmlim "map otime cap" "map omode cap"] by auto
  have "final_test nlim dtlim c \<longleftrightarrow> \<not> (nlim \<le> int (length cap) \<and> dtlim \<le> dt c)"
    using c(2,4) by (auto simp: final_test_def)
  then show ?thesis using c(1,3)
    by (simp add: main_cell_def Let_def)
qed

text \<open>
  C1: the mission limit is not enforced. Take a neighbourhood of two observations of one
  mission, at 2000.0 and 2000.05, with the limits 1 observation, 0 years and 2 missions.
  The neighbourhood has more observations than the minimum, a longer span than the minimum
  and a full sampling fraction (both observations lie in the one bin), and one mission
  where two are asked for: with a limit of one mission the four conditions hold, with the
  limit of two they do not, and the loop is not left by \<^verbatim>\<open>break\<close>. The cell is not
  skipped all the same: the final test does not fire and the rest of the iteration, the
  fit, runs on the two observations. For every neighbourhood the decision is that of
  \<open>main_cell_gate\<close>, where the limit \<open>nmlim\<close> does not occur.
\<close>

theorem main_cell_ignores_mission_limit:
  "coverage 1 0 2 [2000, 2000.05] [1, 1]
     = Inr (\<lparr>nobs = 2, dt = 1 / 20, nsen = 1, npct = 1\<rparr>, False)
   \<and> constraints_met 1 0 1 \<lparr>nobs = 2, dt = 1 / 20, nsen = 1, npct = 1\<rparr>
   \<and> \<not> constraints_met 1 0 2 \<lparr>nobs = 2, dt = 1 / 20, nsen = 1, npct = 1\<rparr>
   \<and> \<not> final_test 1 0 \<lparr>nobs = 2, dt = 1 / 20, nsen = 1, npct = 1\<rparr>
   \<and> main_cell (\<lambda>cap i_upd. Inr (Some i_upd)) 1 0 2 1000 1000 0 0
       [\<lparr>ox = 0, oy = 0, otime = 2000, oelev = Some 0, osigma = None, omode = 1\<rparr>,
        \<lparr>ox = 0, oy = 0, otime = 2000.05, oelev = Some 0, osigma = None, omode = 1\<rparr>]
     = Inr (Some [0, 1])"
  by (simp add: main_cell_def final_test_def footprint_def coverage_def binning_def
      arange_def binning_step_def bin_values_def select_def nanmedian_def np_median_def
      nanstd_def np_sum_def upt_conv_Cons Let_def constraints_met_def)

text \<open>
  C10: for a grid cell that passes the coverage gate, the cell is skipped (nothing is
  appended to the output) when exactly 5 of its observations lie in the footprint of
  the cell; with any other count, 4 and 6 among them, the rest of the iteration runs on
  the cell.
\<close>

theorem footprint_five_skipped:
  assumes "coverage nlim dtlim nmlim (map otime cap) (map omode cap) = Inr (c, broke)"
    and "\<not> final_test nlim dtlim c"
  shows "(length (footprint dx dy xc yc cap) = 5
          \<longrightarrow> main_cell rest nlim dtlim nmlim dx dy xc yc cap = Inr None)
    \<and> (length (footprint dx dy xc yc cap) \<noteq> 5
          \<longrightarrow> main_cell rest nlim dtlim nmlim dx dy xc yc cap
              = rest cap (footprint dx dy xc yc cap))"
  using assms by (simp add: main_cell_def Let_def)

theorem footprint_five_skipped_witness:
  "coverage 5 0 1 [2000, 2000, 2000, 2000, 2000, 2000] [1, 1, 1, 1, 1, 1]
     = Inr (\<lparr>nobs = 6, dt = 0, nsen = 1, npct = 1\<rparr>, False)
   \<and> \<not> final_test 5 0 \<lparr>nobs = 6, dt = 0, nsen = 1, npct = 1\<rparr>
   \<and> footprint 1000 1000 0 0
       [\<lparr>ox = 0, oy = 0, otime = 2000, oelev = Some 0, osigma = None, omode = 1\<rparr>,
        \<lparr>ox = 100, oy = 0, otime = 2000, oelev = Some 0, osigma = None, omode = 1\<rparr>,
        \<lparr>ox = 0, oy = 100, otime = 2000, oelev = Some 0, osigma = None, omode = 1\<rparr>,
        \<lparr>ox = 2000, oy = 0, otime = 2000, oelev = Some 0, osigma = None, omode = 1\<rparr>,
        \<lparr>ox = 500, oy = 500, otime = 2000, oelev = Some 0, osigma = None, omode = 1\<rparr>,
        \<lparr>ox = - 500, oy = 0, otime = 2000, oelev = Some 0, osigma = None, omode = 1\<rparr>] = [0, 1, 2, 4, 5]
   \<and> main_cell (\<lambda>cap i_upd. Inr (Some i_upd)) 5 0 1 1000 1000 0 0
       [\<lparr>ox = 0, oy = 0, otime = 2000, oelev = Some 0, osigma = None, omode = 1\<rparr>,
        \<lparr>ox = 100, oy = 0, otime = 2000, oelev = Some 0, osigma = None, omode = 1\<rparr>,
        \<lparr>ox = 0, oy = 100, otime = 2000, oelev = Some 0, osigma = None, omode = 1\<rparr>,
        \<lparr>ox = 2000, oy = 0, otime = 2000, oelev = Some 0, osigma = None, omode = 1\<rparr>,
        \<lparr>ox = 500, oy = 500, otime = 2000, oelev = Some 0, osigma = None, omode = 1\<rparr>,
        \<lparr>ox = - 500, oy = 0, otime = 2000, oelev = Some 0, osigma = None, omode = 1\<rparr>] = Inr None"
proof -
  have cov: "coverage 5 0 1 (map otime
       [\<lparr>ox = 0, oy = 0, otime = 2000, oelev = Some 0, osigma = None, omode = 1\<rparr>,
        \<lparr>ox = 100, oy = 0, otime = 2000, oelev = Some 0, osigma = None, omode = 1\<rparr>,
        \<lparr>ox = 0, oy = 100, otime = 2000, oelev = Some 0, osigma = None, omode = 1\<rparr>,
        \<lparr>ox = 2000, oy = 0, otime = 2000, oelev = Some 0, osigma = None, omode = 1\<rparr>,
        \<lparr>ox = 500, oy = 500, otime = 2000, oelev = Some 0, osigma = None, omode = 1\<rparr>,
        \<lparr>ox = - 500, oy = 0, otime = 2000, oelev = Some 0, osigma = None, omode = 1\<rparr>]) (map omode
       [\<lparr>ox = 0, oy = 0, otime = 2000, oelev = Some 0, osigma = None, omode = 1\<rparr>,
        \<lparr>ox = 100, oy = 0, otime = 2000, oelev = Some 0, osigma = None, omode = 1\<rparr>,
        \<lparr>ox = 0, oy = 100, otime = 2000, oelev = Some 0, osigma = None, omode = 1\<rparr>,
        \<lparr>ox = 2000, oy = 0, otime = 2000, oelev = Some 0, osigma = None, omode = 1\<rparr>,
        \<lparr>ox = 500, oy = 500, otime = 2000, oelev = Some 0, osigma = None, omode = 1\<rparr>,
        \<lparr>ox = - 500, oy = 0, otime = 2000, oelev = Some 0, osigma = None, omode = 1\<rparr>])
     = Inr (\<lparr>nobs = 6, dt = 0, nsen = 1, npct = 1\<rparr>, False)"
    by (simp add: coverage_def binning_def arange_def Let_def)
  have gate: "\<not> final_test 5 0 \<lparr>nobs = 6, dt = 0, nsen = 1, npct = 1\<rparr>"
    by (simp add: final_test_def)
  have foot: "footprint 1000 1000 0 0
       [\<lparr>ox = 0, oy = 0, otime = 2000, oelev = Some 0, osigma = None, omode = 1\<rparr>,
        \<lparr>ox = 100, oy = 0, otime = 2000, oelev = Some 0, osigma = None, omode = 1\<rparr>,
        \<lparr>ox = 0, oy = 100, otime = 2000, oelev = Some 0, osigma = None, omode = 1\<rparr>,
        \<lparr>ox = 2000, oy = 0, otime = 2000, oelev = Some 0, osigma = None, omode = 1\<rparr>,
        \<lparr>ox = 500, oy = 500, otime = 2000, oelev = Some 0, osigma = None, omode = 1\<rparr>,
        \<lparr>ox = - 500, oy = 0, otime = 2000, oelev = Some 0, osigma = None, omode = 1\<rparr>] = [0, 1, 2, 4, 5]"
    by (simp add: footprint_def upt_conv_Cons)
  show ?thesis
    using footprint_five_skipped [OF cov gate, of 1000 1000 0 0 "\<lambda>cap i_upd. Inr (Some i_upd)"]
      cov gate foot by simp
qed

subsection \<open>Robust standard deviation\<close>

text \<open>
  C8, as the claim states it, fails for the empty array, which is an array of finite
  values and a constant one: \<^verbatim>\<open>np.nanmedian\<close> of no value is NaN, and so is the result,
  which is neither a non-negative number nor 0.
\<close>

theorem mad_std_empty_counterexample:
  "mad_std [] = None \<and> \<not> (\<exists>r. mad_std [] = Some r \<and> 0 \<le> r) \<and> mad_std [] \<noteq> Some 0"
  by (simp add: mad_std_def nanmedian_def)

text \<open>
  C8 (amended): for every array that holds at least one finite value (its other entries,
  if any, are NaN) and whose finite values are at most \<open>2 ^ 1021\<close> in magnitude,
  \<open>mad_std\<close> is a non-negative number; it is exactly 0 when all the finite values are
  equal, and exactly 0 when there is a single finite value. The bound keeps the program's
  double precision arithmetic within range: the sum of two values that a median
  averages, the deviations, the sum of two deviations and the final product stay at or below
  \<open>2 ^ 1023\<close>, in the range of a double. Beyond it the averaging overflows, and the program returns infinity for
  the constant array of two values \<^verbatim>\<open>1e308\<close>.
\<close>

theorem mad_std_nonneg_const_single:
  assumes "finite_values x \<noteq> []"
    and "\<forall>v \<in> set (finite_values x). \<bar>v\<bar> \<le> 2 ^ 1021"
  shows "(\<exists>r. mad_std x = Some r \<and> 0 \<le> r)
    \<and> ((\<forall>v \<in> set (finite_values x). v = c) \<longrightarrow> mad_std x = Some 0)
    \<and> (length (finite_values x) = 1 \<longrightarrow> mad_std x = Some 0)"
proof (intro conjI impI)
  let ?v = "finite_values x"
  let ?d = "map (\<lambda>r. \<bar>r - np_median ?v\<bar>) ?v"
  have d: "?d \<noteq> []" using assms(1) by simp
  have "0 \<le> np_median ?d" using d by (rule np_median_nonneg) auto
  then have "0 \<le> 1.4826 * np_median ?d" by simp
  moreover have "mad_std x = Some (1.4826 * np_median ?d)"
    using assms(1) by (rule mad_std_finite)
  ultimately show "\<exists>r. mad_std x = Some r \<and> 0 \<le> r" by blast
  have zero: "mad_std x = Some 0" if "\<And>v. v \<in> set ?v \<Longrightarrow> v = k" for k
  proof -
    have "np_median ?v = k" using assms(1) that by (rule np_median_const)
    then have "\<And>v. v \<in> set ?d \<Longrightarrow> v = 0" using that by auto
    with d have "np_median ?d = 0" by (rule np_median_const)
    then show ?thesis using assms(1) by (simp add: mad_std_finite)
  qed
  show "mad_std x = Some 0" if "\<forall>v \<in> set ?v. v = c"
    using that by (intro zero [of c]) blast
  show "mad_std x = Some 0" if "length ?v = 1"
  proof -
    from that obtain k where "?v = [k]"
      by (cases ?v) simp_all
    then show ?thesis by (intro zero [of k]) simp
  qed
qed

theorem mad_std_nonneg_const_single_witness:
  "finite_values [None, Some 5, None] = [5]
    \<and> \<bar>5 :: real\<bar> \<le> 2 ^ 1021
    \<and> (\<exists>r. mad_std [None, Some 5, None] = Some r \<and> 0 \<le> r)
    \<and> mad_std [None, Some 5, None] = Some 0"
proof -
  have "(2 :: real) ^ 3 \<le> 2 ^ 1021" by (rule power_increasing) simp_all
  then have five: "\<bar>5 :: real\<bar> \<le> 2 ^ 1021" by simp
  then have bound: "\<forall>v \<in> set (finite_values [None, Some 5, None]). \<bar>v\<bar> \<le> 2 ^ 1021"
    by simp
  have ne: "finite_values [None, Some (5 :: real), None] \<noteq> []" by simp
  have "(\<exists>r. mad_std [None, Some 5, None] = Some r \<and> 0 \<le> r)
      \<and> mad_std [None, Some 5, None] = Some 0"
    using mad_std_nonneg_const_single [OF ne bound, of 5] by simp
  then show ?thesis using five by simp
qed

end
